theory Spec2Isabelle
  imports Main "HOL-Library.AList"
begin

section \<open>Data model\<close>

text \<open>
  A Go \<^verbatim>\<open>map[string]string\<close> (labels, annotations) is an association list read with
  \<open>map_of\<close>, written with \<open>AList.update\<close> and \<open>AList.delete\<close>. Go's nil map and its empty
  map are both \<open>[]\<close>: the code only ever asks \<^verbatim>\<open>len(m) == 0\<close> of them.
\<close>

type_synonym smap = "(string \<times> string) list"

text \<open>The three values of \<^verbatim>\<open>corev1.ConditionStatus\<close>: "True", "False" and "Unknown".\<close>

datatype ConditionStatus = CondTrue | CondFalse | CondUnknown

text \<open>
  \<^verbatim>\<open>status.Condition\<close> of operator-lib. \<^verbatim>\<open>LastTransitionTime\<close> is left out: no decision of
  the controller reads it, and \<^verbatim>\<open>SetCondition\<close> keeps it whenever it reports no change.
\<close>

record Condition =
  condType :: string
  condStatus :: ConditionStatus
  condReason :: string
  condMessage :: string

text \<open>
  The \<^verbatim>\<open>DrupalSite\<close> resource, with the fields of metadata, spec and status that the
  controller reads or writes (the API types of this version are not among the sources; the
  fields are the ones the controller code names).
\<close>

record DrupalVersion =
  VersionName :: string
  ReleaseSpec :: string

record Configuration =
  CloneFrom :: string
  WebDAVPassword :: string
  ExtraConfigurationRepo :: string

record DrupalSiteSpec =
  Publish :: bool
  SiteURL :: string
  MainSite :: bool
  Version :: DrupalVersion
  Configuration :: Configuration

record ReleaseID =
  Current :: string
  Failsafe :: string

record Backup =
  BackupName :: string
  Date :: "int option"
  Expires :: "int option"

record DrupalSiteStatus =
  Conditions :: "Condition list"
  ReleaseID :: ReleaseID
  ServingPodImage :: string
  AvailableBackups :: "Backup list"

record DrupalSite =
  Name :: string
  Namespace :: string
  Labels :: smap
  Annotations :: smap
  Finalizers :: "string list"
  DeletionTimestamp :: "int option"
  Spec :: DrupalSiteSpec
  Status :: DrupalSiteStatus

text \<open>A velero \<^verbatim>\<open>Backup\<close>: name, \<^verbatim>\<open>Status.Phase\<close>, completion and expiration time.\<close>

record VeleroBackup =
  VeleroName :: string
  VeleroPhase :: string
  CompletionTimestamp :: "int option"
  Expiration :: "int option"

section \<open>Conditions\<close>

text \<open>
  \<^verbatim>\<open>Conditions.GetCondition\<close>, \<^verbatim>\<open>SetCondition\<close> and \<^verbatim>\<open>RemoveCondition\<close> of operator-lib
  (\<^verbatim>\<open>status/conditions.go\<close>): the first entry of the type is read, replaced or removed;
  \<^verbatim>\<open>SetCondition\<close> reports a change when status, reason or message differ, or when the
  condition is new (it is then appended).
\<close>

fun GetCondition :: "Condition list \<Rightarrow> string \<Rightarrow> Condition option" where
  "GetCondition [] t = None"
| "GetCondition (c # cs) t = (if condType c = t then Some c else GetCondition cs t)"

fun SetCondition :: "Condition list \<Rightarrow> Condition \<Rightarrow> bool \<times> Condition list" where
  "SetCondition [] newCond = (True, [newCond])"
| "SetCondition (c # cs) newCond =
     (if condType c = condType newCond
      then (condStatus c \<noteq> condStatus newCond \<or> condReason c \<noteq> condReason newCond
              \<or> condMessage c \<noteq> condMessage newCond,
            newCond # cs)
      else (case SetCondition cs newCond of (changed, cs') \<Rightarrow> (changed, c # cs')))"

fun RemoveCondition :: "Condition list \<Rightarrow> string \<Rightarrow> bool \<times> Condition list" where
  "RemoveCondition [] t = (False, [])"
| "RemoveCondition (c # cs) t =
     (if condType c = t then (True, cs)
      else (case RemoveCondition cs t of (removed, cs') \<Rightarrow> (removed, c # cs')))"

text \<open>\<^verbatim>\<open>func (drp DrupalSite) ConditionTrue(condition)\<close>.\<close>

definition ConditionTrue :: "DrupalSite \<Rightarrow> string \<Rightarrow> bool" where
  "ConditionTrue drp condition =
     (case GetCondition (Conditions (Status drp)) condition of
        None \<Rightarrow> False
      | Some init \<Rightarrow> condStatus init = CondTrue)"

text \<open>Writing the conditions of a site back, and the two in-place calls the controller makes.\<close>

definition withConditions :: "DrupalSite \<Rightarrow> Condition list \<Rightarrow> DrupalSite" where
  "withConditions drp cs = drp\<lparr>Status := (Status drp)\<lparr>Conditions := cs\<rparr>\<rparr>"

definition siteSetCondition :: "DrupalSite \<Rightarrow> Condition \<Rightarrow> bool \<times> DrupalSite" where
  "siteSetCondition drp c =
     (case SetCondition (Conditions (Status drp)) c of
        (changed, cs) \<Rightarrow> (changed, withConditions drp cs))"

definition siteRemoveCondition :: "DrupalSite \<Rightarrow> string \<Rightarrow> bool \<times> DrupalSite" where
  "siteRemoveCondition drp t =
     (case RemoveCondition (Conditions (Status drp)) t of
        (removed, cs) \<Rightarrow> (removed, withConditions drp cs))"

section \<open>The updateInProgress annotation\<close>

definition setUpdateInProgress :: "DrupalSite \<Rightarrow> bool \<times> DrupalSite" where
  "setUpdateInProgress drp =
     (let annotations = (if length (Annotations drp) = 0 then [] else Annotations drp) in
      if map_of annotations ''updateInProgress'' = Some ''true''
      then (False, drp\<lparr>Annotations := annotations\<rparr>)
      else (True, drp\<lparr>Annotations := AList.update ''updateInProgress'' ''true'' annotations\<rparr>))"

definition unsetUpdateInProgress :: "DrupalSite \<Rightarrow> bool \<times> DrupalSite" where
  "unsetUpdateInProgress drp =
     (if length (Annotations drp) \<noteq> 0
      then (case map_of (Annotations drp) ''updateInProgress'' of
              Some _ \<Rightarrow> (True, drp\<lparr>Annotations := AList.delete ''updateInProgress'' (Annotations drp)\<rparr>)
            | None \<Rightarrow> (False, drp))
      else (False, drp))"

section \<open>Backup list\<close>

text \<open>
  \<^verbatim>\<open>backupListUpdateNeeded\<close>: the loop over the velero list by index, reading the status
  list at the same index; the length test before it keeps that index in range.
\<close>

fun backupNamesDiffer :: "nat \<Rightarrow> VeleroBackup list \<Rightarrow> Backup list \<Rightarrow> bool" where
  "backupNamesDiffer i [] statusBackupsList = False"
| "backupNamesDiffer i (v # vs) statusBackupsList =
     (if VeleroName v \<noteq> BackupName (statusBackupsList ! i) then True
      else backupNamesDiffer (Suc i) vs statusBackupsList)"

definition backupListUpdateNeeded :: "VeleroBackup list \<Rightarrow> Backup list \<Rightarrow> bool" where
  "backupListUpdateNeeded veleroBackupsList statusBackupsList =
     (if length veleroBackupsList \<noteq> length statusBackupsList then True
      else backupNamesDiffer 0 veleroBackupsList statusBackupsList)"

fun updateBackupListStatus :: "VeleroBackup list \<Rightarrow> Backup list" where
  "updateBackupListStatus [] = []"
| "updateBackupListStatus (v # vs) =
     \<lparr>BackupName = VeleroName v, Date = CompletionTimestamp v, Expires = Expiration v\<rparr>
       # updateBackupListStatus vs"

section \<open>Errors\<close>

text \<open>
  What a cluster call can answer besides success: \<^verbatim>\<open>IsNotFound\<close>, \<^verbatim>\<open>IsConflict\<close> (the
  optimistic-concurrency failure of a write), or any other failure.
\<close>

datatype apiError = NotFound | Conflict | ApiFailure

text \<open>
  The error conditions the controller names (\<^verbatim>\<open>ErrClientK8s\<close>, ...), and the one it builds on
  the spot with \<^verbatim>\<open>errors.New\<close>.
\<close>

datatype errCondition = ErrInvalidSpec | ErrClientK8s | ErrFunctionDomain | ErrTemporary | ErrDBOD
  | ErrPodExec | ErrDeploymentUpdateFailed | ErrDBUpdateFailed | ErrPodNotRunning
  | ErrAdHoc string

text \<open>
  Go error values as the controller builds them: an error of the cluster client,
  \<^verbatim>\<open>errors.New(msg)\<close>, \<^verbatim>\<open>fmt.Errorf(msg, err)\<close> around an inner error, and
  \<^verbatim>\<open>newApplicationError(inner, condition)\<close>, the only constructor of a \<^verbatim>\<open>reconcileError\<close>.
\<close>

datatype goError = ApiError apiError | ErrorNew string | Errorf string "goError option"
  | ApplicationError "goError option" errCondition

definition newApplicationError :: "goError option \<Rightarrow> errCondition \<Rightarrow> goError" where
  "newApplicationError inner condition = ApplicationError inner condition"

text \<open>
  The methods of \<^verbatim>\<open>reconcileError\<close> and the helper \<^verbatim>\<open>concat\<close> are declared in a file of
  the package that is not among the sources, so they are parameters of the model:
  \<^verbatim>\<open>err.Temporary()\<close>, \<^verbatim>\<open>err.Wrap(msg)\<close>, \<^verbatim>\<open>concat(errs)\<close>, \<^verbatim>\<open>err.Unwrap().Error()\<close> and
  \<^verbatim>\<open>err.Error()\<close>. Every theorem below holds for each choice of them.
\<close>

record errors_go =
  Temporary :: "goError \<Rightarrow> bool"
  Wrap :: "goError \<Rightarrow> string \<Rightarrow> goError"
  concat_errors :: "goError list \<Rightarrow> goError"
  UnwrapError :: "goError \<Rightarrow> string"
  ErrorText :: "goError \<Rightarrow> string"

text \<open>
  Package-level variables set at start-up, and what the controller takes from outside the
  given sources: the constant \<^verbatim>\<open>CloneFromNothing\<close> of the API package, \<^verbatim>\<open>md5\<close> with
  \<^verbatim>\<open>hex.EncodeToString\<close>, and \<^verbatim>\<open>govalidator.ValidateStruct\<close>.
\<close>

record globals =
  DefaultDomain :: string
  SiteBuilderImage :: string
  CloneFromNothing :: string
  md5hex :: "string \<Rightarrow> string"
  ValidateStruct :: "DrupalSiteSpec \<Rightarrow> goError option"

section \<open>The cluster client and the exec channel\<close>

datatype kind = KDrupalSite | KDeployment | KJob | KDatabase | KPod | KRoute | KOidcReturnURI
  | KImageStream | KBuildConfig | KSecret | KPersistentVolumeClaim | KService | KConfigMap
  | KSchedule | KBackup

datatype OperationResult = OperationResultNone | OperationResultCreated | OperationResultUpdated

text \<open>
  The objects the controller reads back, with the fields it reads: the pod template's
  annotations and \<^verbatim>\<open>Status.ReadyReplicas\<close> of a Deployment, \<^verbatim>\<open>Status.Succeeded\<close> of a Job,
  \<^verbatim>\<open>Status.DbodInstance\<close> of a Database, and name, annotations, \<^verbatim>\<open>Status.Phase\<close> and creation
  time (nanoseconds) of a Pod.
\<close>

record Deployment =
  TemplateAnnotations :: smap
  ReadyReplicas :: int

record Job =
  Succeeded :: int

record Database =
  DbodInstance :: string

record Pod =
  PodName :: string
  PodAnnotations :: smap
  Phase :: string
  CreationTimestamp :: int

text \<open>
  The mutate functions handed to \<^verbatim>\<open>CreateOrUpdate\<close>. They shape the manifests (containers,
  volumes, labels), which the reconcile logic never reads back; a call is recorded with the
  function and the arguments that vary: the database secret and the release identifier the
  Deployment is built for.
\<close>

datatype mutateFn = imageStreamForDrupalSiteBuilderS2I | buildConfigForDrupalSiteBuilderS2I
  | secretForWebDAV | deploymentForDrupalSite string string | serviceForDrupalSite
  | persistentVolumeClaimForDrupalSite | routeForDrupalSite | newOidcReturnURI | routeForWebDAV
  | jobForDrupalSiteInstallation string | jobForDrupalSiteClone string
  | updateConfigMapForPHPFPM | updateConfigMapForNginx | updateConfigMapForSiteSettings
  | dbodForDrupalSite | scheduledBackupsForDrupalSite

text \<open>
  Every call a pass makes on its collaborators, in the order made: kind, namespace and name
  of the object (or the label selector of a List), the site handed to a persist, and
  container, pod, namespace and command of an exec.
\<close>

datatype call = GetCall kind string string
  | ListCall kind string smap
  | CreateOrUpdateCall kind string string mutateFn
  | DeleteCall kind string string
  | UpdateCall DrupalSite
  | StatusUpdateCall DrupalSite
  | ExecCall string string string "string list"

text \<open>
  The collaborators (spec section 6) answer as the environment decides. The answer to the
  \<open>n\<close>-th call of a pass may depend on \<open>n\<close>, so that the cluster can change under the
  controller: whether the call fails, the object stored under a name, the items a List
  returns, what \<^verbatim>\<open>CreateOrUpdate\<close> reports when it does not fail, and what the exec channel
  returns. The clock and the generated WebDAV password (a hash of the time) are read from
  the environment too.
\<close>

record cluster =
  fault :: "nat \<Rightarrow> apiError option"
  siteAt :: "nat \<Rightarrow> string \<Rightarrow> string \<Rightarrow> DrupalSite option"
  deploymentAt :: "nat \<Rightarrow> string \<Rightarrow> string \<Rightarrow> Deployment option"
  jobAt :: "nat \<Rightarrow> string \<Rightarrow> string \<Rightarrow> Job option"
  databaseAt :: "nat \<Rightarrow> string \<Rightarrow> string \<Rightarrow> Database option"
  presentAt :: "kind \<Rightarrow> nat \<Rightarrow> string \<Rightarrow> string \<Rightarrow> unit option"
  podsAt :: "nat \<Rightarrow> string \<Rightarrow> smap \<Rightarrow> Pod list"
  sitesAt :: "nat \<Rightarrow> string \<Rightarrow> smap \<Rightarrow> DrupalSite list"
  backupsAt :: "nat \<Rightarrow> string \<Rightarrow> smap \<Rightarrow> VeleroBackup list"
  resultAt :: "nat \<Rightarrow> OperationResult"
  execAt :: "nat \<Rightarrow> string \<Rightarrow> string \<Rightarrow> string \<Rightarrow> string list \<Rightarrow> string \<times> string \<times> goError option"
  timeNow :: int
  generateWebDAVpassword :: string

text \<open>\<^verbatim>\<open>r.Get\<close>: the object, \<^verbatim>\<open>NotFound\<close> when there is none, or the failure of the call.\<close>

definition clientGet ::
  "cluster \<Rightarrow> (nat \<Rightarrow> string \<Rightarrow> string \<Rightarrow> 'a option) \<Rightarrow> kind \<Rightarrow> string \<Rightarrow> string \<Rightarrow> call list
     \<Rightarrow> (apiError + 'a) \<times> call list" where
  "clientGet cl objAt k ns name w =
     (case fault cl (length w) of
        Some e \<Rightarrow> (Inl e, w @ [GetCall k ns name])
      | None \<Rightarrow>
          (case objAt (length w) ns name of
             None \<Rightarrow> (Inl NotFound, w @ [GetCall k ns name])
           | Some obj \<Rightarrow> (Inr obj, w @ [GetCall k ns name])))"

definition clientList ::
  "cluster \<Rightarrow> (nat \<Rightarrow> string \<Rightarrow> smap \<Rightarrow> 'a list) \<Rightarrow> kind \<Rightarrow> string \<Rightarrow> smap \<Rightarrow> call list
     \<Rightarrow> (apiError + 'a list) \<times> call list" where
  "clientList cl itemsAt k ns matchLabels w =
     (case fault cl (length w) of
        Some e \<Rightarrow> (Inl e, w @ [ListCall k ns matchLabels])
      | None \<Rightarrow> (Inr (itemsAt (length w) ns matchLabels), w @ [ListCall k ns matchLabels]))"

definition clientDelete ::
  "cluster \<Rightarrow> kind \<Rightarrow> string \<Rightarrow> string \<Rightarrow> call list \<Rightarrow> apiError option \<times> call list" where
  "clientDelete cl k ns name w = (fault cl (length w), w @ [DeleteCall k ns name])"

text \<open>
  \<^verbatim>\<open>controllerutil.CreateOrUpdate\<close>, taken as one call of the collaborator: it fails, or
  reports created, updated or unchanged.
\<close>

definition CreateOrUpdate ::
  "cluster \<Rightarrow> kind \<Rightarrow> string \<Rightarrow> string \<Rightarrow> mutateFn \<Rightarrow> call list
     \<Rightarrow> (apiError + OperationResult) \<times> call list" where
  "CreateOrUpdate cl k ns name f w =
     (case fault cl (length w) of
        Some e \<Rightarrow> (Inl e, w @ [CreateOrUpdateCall k ns name f])
      | None \<Rightarrow> (Inr (resultAt cl (length w)), w @ [CreateOrUpdateCall k ns name f]))"

text \<open>\<^verbatim>\<open>r.Update\<close> and \<^verbatim>\<open>r.Status().Update\<close>: the two persists of the site.\<close>

definition clientUpdate :: "cluster \<Rightarrow> DrupalSite \<Rightarrow> call list \<Rightarrow> apiError option \<times> call list" where
  "clientUpdate cl drp w = (fault cl (length w), w @ [UpdateCall drp])"

definition clientStatusUpdate ::
  "cluster \<Rightarrow> DrupalSite \<Rightarrow> call list \<Rightarrow> apiError option \<times> call list" where
  "clientStatusUpdate cl drp w = (fault cl (length w), w @ [StatusUpdateCall drp])"

definition execToPodThroughAPI ::
  "cluster \<Rightarrow> string \<Rightarrow> string \<Rightarrow> string \<Rightarrow> string list \<Rightarrow> call list
     \<Rightarrow> (string \<times> string \<times> goError option) \<times> call list" where
  "execToPodThroughAPI cl containerName podName ns command w =
     (execAt cl (length w) containerName podName ns command,
      w @ [ExecCall containerName podName ns command])"

text \<open>Go's \<^verbatim>\<open>m[k]\<close> on a string map: the empty string when the key is missing.\<close>

definition index :: "smap \<Rightarrow> string \<Rightarrow> string" where
  "index m k = (case map_of m k of None \<Rightarrow> '''' | Some v \<Rightarrow> v)"

section \<open>Status helpers\<close>

definition setConditionStatus ::
  "errors_go \<Rightarrow> DrupalSite \<Rightarrow> string \<Rightarrow> bool \<Rightarrow> goError option \<Rightarrow> bool \<Rightarrow> bool \<times> DrupalSite" where
  "setConditionStatus E drp conditionType statusFlag err statusUnknown =
     (let statusStr = (if statusUnknown then CondUnknown
                       else if statusFlag then CondTrue else CondFalse);
          condition =
            (case err of
               Some e \<Rightarrow> \<lparr>condType = conditionType, condStatus = statusStr,
                           condReason = UnwrapError E e, condMessage = ErrorText E e\<rparr>
             | None \<Rightarrow> \<lparr>condType = conditionType, condStatus = statusStr,
                         condReason = '''', condMessage = ''''\<rparr>)
      in siteSetCondition drp condition)"

definition setReady :: "DrupalSite \<Rightarrow> bool \<times> DrupalSite" where
  "setReady drp = siteSetCondition drp
     \<lparr>condType = ''Ready'', condStatus = CondTrue, condReason = '''', condMessage = ''''\<rparr>"

definition setNotReady :: "errors_go \<Rightarrow> DrupalSite \<Rightarrow> goError option \<Rightarrow> bool \<times> DrupalSite" where
  "setNotReady E drp transientErr = setConditionStatus E drp ''Ready'' False transientErr False"

definition setInitialized :: "DrupalSite \<Rightarrow> bool \<times> DrupalSite" where
  "setInitialized drp = siteSetCondition drp
     \<lparr>condType = ''Initialized'', condStatus = CondTrue, condReason = '''', condMessage = ''''\<rparr>"

definition setNotInitialized :: "DrupalSite \<Rightarrow> bool \<times> DrupalSite" where
  "setNotInitialized drp = siteSetCondition drp
     \<lparr>condType = ''Initialized'', condStatus = CondFalse, condReason = '''', condMessage = ''''\<rparr>"

definition setErrorCondition :: "errors_go \<Rightarrow> DrupalSite \<Rightarrow> goError \<Rightarrow> bool \<times> DrupalSite" where
  "setErrorCondition E drp err = setConditionStatus E drp ''Error'' True (Some err) False"

definition setDBUpdatesPending :: "DrupalSite \<Rightarrow> bool \<times> DrupalSite" where
  "setDBUpdatesPending drp = siteSetCondition drp
     \<lparr>condType = ''DBUpdatesPending'', condStatus = CondTrue, condReason = '''', condMessage = ''''\<rparr>"

text \<open>The result of a pass: \<^verbatim>\<open>reconcile.Result\<close> (the controller only sets \<^verbatim>\<open>Requeue\<close>).\<close>

record Result =
  Requeue :: bool

definition updateCRorFailReconcile ::
  "cluster \<Rightarrow> DrupalSite \<Rightarrow> call list \<Rightarrow> (Result \<times> goError option) \<times> call list" where
  "updateCRorFailReconcile cl drp w =
     (case clientUpdate cl drp w of
        (Some err, w') \<Rightarrow>
          if err = Conflict then ((\<lparr>Requeue = True\<rparr>, None), w')
          else ((\<lparr>Requeue = False\<rparr>, Some (ApiError err)), w')
      | (None, w') \<Rightarrow> ((\<lparr>Requeue = False\<rparr>, None), w'))"

definition updateCRStatusOrFailReconcile ::
  "cluster \<Rightarrow> DrupalSite \<Rightarrow> call list \<Rightarrow> (Result \<times> goError option) \<times> call list" where
  "updateCRStatusOrFailReconcile cl drp w =
     (case clientStatusUpdate cl drp w of
        (Some err, w') \<Rightarrow>
          if err = Conflict then ((\<lparr>Requeue = True\<rparr>, None), w')
          else ((\<lparr>Requeue = False\<rparr>, Some (ApiError err)), w')
      | (None, w') \<Rightarrow> ((\<lparr>Requeue = False\<rparr>, None), w'))"

section \<open>Constants, names and commands\<close>

definition finalizerStr :: string where
  "finalizerStr = ''controller.drupalsite.webservices.cern.ch''"

definition veleroNamespace :: string where
  "veleroNamespace = ''openshift-cern-clusterstatebackup''"

text \<open>The pod phases of \<^verbatim>\<open>corev1\<close>; the phase of the empty \<^verbatim>\<open>corev1.Pod{}\<close> is the empty string.\<close>

definition PodPending :: string where "PodPending = ''Pending''"
definition PodRunning :: string where "PodRunning = ''Running''"
definition PodFailed :: string where "PodFailed = ''Failed''"
definition PodUnknown :: string where "PodUnknown = ''Unknown''"

definition BackupPhaseCompleted :: string where "BackupPhaseCompleted = ''Completed''"

definition emptyPod :: Pod where
  "emptyPod = \<lparr>PodName = '''', PodAnnotations = [], Phase = '''',
               CreationTimestamp = - 62135596800000000000\<rparr>"

definition releaseID :: "DrupalSite \<Rightarrow> string" where
  "releaseID d = VersionName (Version (Spec d)) @ ''-'' @ ReleaseSpec (Version (Spec d))"

definition databaseSecretName :: "DrupalSite \<Rightarrow> string" where
  "databaseSecretName d = ''dbcredentials-'' @ Name d"

text \<open>\<^verbatim>\<open>sitebuilderImageRefToUse(d, releaseID).Name\<close>: the only field of the reference that is read.\<close>

definition sitebuilderImageRefToUse :: "globals \<Rightarrow> DrupalSite \<Rightarrow> string \<Rightarrow> string" where
  "sitebuilderImageRefToUse G d rid =
     (if length (ExtraConfigurationRepo (Configuration (Spec d))) > 0
      then ''sitebuilder-s2i-'' @ Name d @ '':'' @ rid
      else SiteBuilderImage G @ '':'' @ rid)"

text \<open>\<^verbatim>\<open>nameVersionHash\<close>: the first seven bytes of the md5 sum, in hexadecimal.\<close>

definition nameVersionHash :: "globals \<Rightarrow> DrupalSite \<Rightarrow> string" where
  "nameVersionHash G drp = take 14 (md5hex G (Name drp @ releaseID drp))"

definition checkUpdbStatus :: "string list" where
  "checkUpdbStatus = [''/operations/check-updb-status.sh'']"

definition runUpDBCommand :: "string list" where
  "runUpDBCommand = [''/operations/run-updb.sh'']"

definition takeBackup :: "string \<Rightarrow> string list" where
  "takeBackup filename = [''/operations/database-backup.sh'', ''-f'', filename]"

definition restoreBackup :: "string \<Rightarrow> string list" where
  "restoreBackup filename = [''/operations/database-restore.sh'', ''-f'', filename]"

definition checkIfSiteIsInstalled :: "string list" where
  "checkIfSiteIsInstalled = [''/operations/check-if-installed.sh'']"

definition cacheReload :: "string list" where
  "cacheReload = [''/operations/clear-cache.sh'']"

section \<open>Exec into the server pod\<close>

definition podLabels :: "DrupalSite \<Rightarrow> smap" where
  "podLabels d = [(''drupalSite'', Name d), (''app'', ''drupal'')]"

text \<open>
  \<^verbatim>\<open>getPodForVersion\<close> and \<^verbatim>\<open>getRunningPodForVersion\<close>: list the pods of the site and take the
  first one annotated with the release identifier. (\<^verbatim>\<open>LabelSelectorAsSelector\<close> cannot fail
  on these two fixed labels.)
\<close>

definition getPodForVersion ::
  "cluster \<Rightarrow> DrupalSite \<Rightarrow> string \<Rightarrow> call list \<Rightarrow> (Pod \<times> goError option) \<times> call list" where
  "getPodForVersion cl d rid w =
     (case clientList cl (podsAt cl) KPod (Namespace d) (podLabels d) w of
        (Inl err, w') \<Rightarrow>
          ((emptyPod, Some (newApplicationError (Some (ApiError err)) ErrClientK8s)), w')
      | (Inr items, w') \<Rightarrow>
          if length items = 0
          then ((emptyPod,
                 Some (newApplicationError
                        (Some (Errorf ''No pod found with given labels: %s'' None)) ErrTemporary)), w')
          else (case find (\<lambda>v. index (PodAnnotations v) ''releaseID'' = rid) items of
                  Some v \<Rightarrow> ((v, None), w')
                | None \<Rightarrow> ((emptyPod, Some (newApplicationError None ErrClientK8s)), w')))"

definition getRunningPodForVersion ::
  "cluster \<Rightarrow> DrupalSite \<Rightarrow> string \<Rightarrow> call list \<Rightarrow> (Pod \<times> goError option) \<times> call list" where
  "getRunningPodForVersion cl d rid w =
     (case clientList cl (podsAt cl) KPod (Namespace d) (podLabels d) w of
        (Inl err, w') \<Rightarrow>
          ((emptyPod, Some (newApplicationError (Some (ApiError err)) ErrClientK8s)), w')
      | (Inr items, w') \<Rightarrow>
          if length items = 0
          then ((emptyPod,
                 Some (newApplicationError
                        (Some (Errorf ''No pod found with given labels: %s'' None)) ErrTemporary)), w')
          else (case find (\<lambda>v. index (PodAnnotations v) ''releaseID'' = rid) items of
                  Some v \<Rightarrow>
                    if Phase v = PodRunning then ((v, None), w')
                    else ((v, Some (newApplicationError None ErrPodNotRunning)), w')
                | None \<Rightarrow> ((emptyPod, Some (newApplicationError None ErrClientK8s)), w')))"

definition execToServerPod ::
  "cluster \<Rightarrow> DrupalSite \<Rightarrow> string \<Rightarrow> string list \<Rightarrow> call list
     \<Rightarrow> (string \<times> string \<times> goError option) \<times> call list" where
  "execToServerPod cl d containerName command w =
     (case getRunningPodForVersion cl d (releaseID d) w of
        ((pod, Some err), w') \<Rightarrow> (('''', '''', Some err), w')
      | ((pod, None), w') \<Rightarrow>
          execToPodThroughAPI cl containerName (PodName pod) (Namespace d) command w')"

definition execToServerPodErrOnStderr ::
  "cluster \<Rightarrow> DrupalSite \<Rightarrow> string \<Rightarrow> string list \<Rightarrow> call list
     \<Rightarrow> (string \<times> goError option) \<times> call list" where
  "execToServerPodErrOnStderr cl d containerName command w =
     (case execToServerPod cl d containerName command w of
        ((stdout, stderr, err), w') \<Rightarrow>
          if err \<noteq> None \<or> stderr \<noteq> ''''
          then (('''', Some (Errorf (''STDERR: '' @ stderr) err)), w')
          else ((stdout, None), w'))"

section \<open>Observing the site\<close>

definition isInstallJobCompleted :: "cluster \<Rightarrow> DrupalSite \<Rightarrow> call list \<Rightarrow> bool \<times> call list" where
  "isInstallJobCompleted cl d w =
     (case clientGet cl (jobAt cl) KJob (Namespace d) (''site-install-'' @ Name d) w of
        (Inr found, w') \<Rightarrow> (Succeeded found \<noteq> 0, w')
      | (Inl err, w') \<Rightarrow> (False, w'))"

definition isCloneJobCompleted :: "cluster \<Rightarrow> DrupalSite \<Rightarrow> call list \<Rightarrow> bool \<times> call list" where
  "isCloneJobCompleted cl d w =
     (case clientGet cl (jobAt cl) KJob (Namespace d) (''clone-'' @ Name d) w of
        (Inl err, w') \<Rightarrow> (False, w')
      | (Inr cloneJob, w') \<Rightarrow> (Succeeded cloneJob \<noteq> 0, w'))"

definition isDrupalSiteReady :: "cluster \<Rightarrow> DrupalSite \<Rightarrow> call list \<Rightarrow> bool \<times> call list" where
  "isDrupalSiteReady cl d w =
     (case clientGet cl (deploymentAt cl) KDeployment (Namespace d) (Name d) w of
        (Inr deployment, w') \<Rightarrow> (ReadyReplicas deployment \<noteq> 0, w')
      | (Inl err1, w') \<Rightarrow> (False, w'))"

definition isDrupalSiteInstalled :: "cluster \<Rightarrow> DrupalSite \<Rightarrow> call list \<Rightarrow> bool \<times> call list" where
  "isDrupalSiteInstalled cl d w =
     (case isDrupalSiteReady cl d w of
        (True, w') \<Rightarrow>
          (case execToServerPodErrOnStderr cl d ''php-fpm'' checkIfSiteIsInstalled w' of
             ((sout, Some err), w'') \<Rightarrow> (False, w'')
           | ((sout, None), w'') \<Rightarrow> (True, w''))
      | (False, w') \<Rightarrow> (False, w'))"

definition isDBODProvisioned :: "cluster \<Rightarrow> DrupalSite \<Rightarrow> call list \<Rightarrow> bool \<times> call list" where
  "isDBODProvisioned cl d w =
     (case clientGet cl (databaseAt cl) KDatabase (Namespace d) (Name d) w of
        (Inl err, w') \<Rightarrow> (False, w')
      | (Inr database, w') \<Rightarrow> (length (DbodInstance database) > 0, w'))"

definition getRunningdeployment ::
  "cluster \<Rightarrow> DrupalSite \<Rightarrow> call list \<Rightarrow> (apiError + Deployment) \<times> call list" where
  "getRunningdeployment cl d w = clientGet cl (deploymentAt cl) KDeployment (Namespace d) (Name d) w"

definition updateNeeded ::
  "cluster \<Rightarrow> DrupalSite \<Rightarrow> call list \<Rightarrow> (bool \<times> goError option) \<times> call list" where
  "updateNeeded cl d w =
     (if ConditionTrue d ''Ready'' \<and> ConditionTrue d ''Initialized''
      then (case getRunningdeployment cl d w of
              (Inl err, w') \<Rightarrow>
                ((False, Some (newApplicationError (Some (ApiError err)) ErrClientK8s)), w')
            | (Inr deployment, w') \<Rightarrow>
                if index (TemplateAnnotations deployment) ''releaseID'' \<noteq> releaseID d
                   \<and> ConditionTrue d ''Ready'' \<and> ConditionTrue d ''Initialized''
                then ((True, None), w')
                else ((False, None), w'))
      else ((False, None), w))"

text \<open>
  \<^verbatim>\<open>checkNewBackups\<close>: the completed velero backups labelled with the hash of the site's
  namespace and name.
\<close>

definition checkNewBackups ::
  "globals \<Rightarrow> cluster \<Rightarrow> DrupalSite \<Rightarrow> call list
     \<Rightarrow> (VeleroBackup list \<times> goError option) \<times> call list" where
  "checkNewBackups G cl d w =
     (case clientList cl (backupsAt cl) KBackup veleroNamespace
             [(''drupal.webservices.cern.ch/drupalSite'', md5hex G (Namespace d @ ''/'' @ Name d))] w of
        (Inl err, w') \<Rightarrow> (([], Some (newApplicationError (Some (ApiError err)) ErrClientK8s)), w')
      | (Inr items, w') \<Rightarrow>
          if length items = 0 then (([], None), w')
          else ((filter (\<lambda>b. VeleroPhase b = BackupPhaseCompleted) items, None), w'))"

section \<open>Resource convergence\<close>

text \<open>
  The common shape of the cases of \<^verbatim>\<open>ensureResourceX\<close>: create or update one object, and
  turn a failure into an \<^verbatim>\<open>ErrClientK8s\<close> application error.
\<close>

definition ensureObject ::
  "cluster \<Rightarrow> kind \<Rightarrow> string \<Rightarrow> string \<Rightarrow> mutateFn \<Rightarrow> call list \<Rightarrow> goError option \<times> call list" where
  "ensureObject cl k ns name f w =
     (case CreateOrUpdate cl k ns name f w of
        (Inl err, w') \<Rightarrow> (Some (newApplicationError (Some (ApiError err)) ErrClientK8s), w')
      | (Inr res, w') \<Rightarrow> (None, w'))"

definition ensureResourceX ::
  "globals \<Rightarrow> cluster \<Rightarrow> DrupalSite \<Rightarrow> string \<Rightarrow> call list \<Rightarrow> goError option \<times> call list" where
  "ensureResourceX G cl d resType w =
     (if resType = ''is_s2i'' then
        ensureObject cl KImageStream (Namespace d) (''sitebuilder-s2i-'' @ Name d)
          imageStreamForDrupalSiteBuilderS2I w
      else if resType = ''bc_s2i'' then
        ensureObject cl KBuildConfig (Namespace d) (''sitebuilder-s2i-'' @ nameVersionHash G d)
          buildConfigForDrupalSiteBuilderS2I w
      else if resType = ''webdav_secret'' then
        ensureObject cl KSecret (Namespace d) (''webdav-secret-'' @ Name d) secretForWebDAV w
      else if resType = ''deploy_drupal'' then
        (case clientGet cl (deploymentAt cl) KDeployment (Namespace d) (Name d) w of
           (r, w') \<Rightarrow>
             if (case r of Inr deploy \<Rightarrow> True | Inl err \<Rightarrow> False)
                \<and> (index (Annotations d) ''updateInProgress'' = ''true''
                     \<or> ConditionTrue d ''CodeUpdateFailed'' \<or> ConditionTrue d ''DBUpdatesFailed'')
             then (None, w')
             else if length (databaseSecretName d) \<noteq> 0 then
               ensureObject cl KDeployment (Namespace d) (Name d)
                 (deploymentForDrupalSite (databaseSecretName d) (releaseID d)) w'
             else (None, w'))
      else if resType = ''svc_nginx'' then
        ensureObject cl KService (Namespace d) (Name d) serviceForDrupalSite w
      else if resType = ''pvc_drupal'' then
        ensureObject cl KPersistentVolumeClaim (Namespace d) (''pv-claim-'' @ Name d)
          persistentVolumeClaimForDrupalSite w
      else if resType = ''route'' then
        ensureObject cl KRoute (Namespace d) (Name d) routeForDrupalSite w
      else if resType = ''oidc_return_uri'' then
        (None, snd (CreateOrUpdate cl KOidcReturnURI (Namespace d) (Name d) newOidcReturnURI w))
      else if resType = ''webdav_route'' then
        ensureObject cl KRoute (Namespace d) (''webdav-'' @ Name d) routeForWebDAV w
      else if resType = ''site_install_job'' then
        (if length (databaseSecretName d) = 0 then (None, w)
         else ensureObject cl KJob (Namespace d) (''site-install-'' @ Name d)
                (jobForDrupalSiteInstallation (databaseSecretName d)) w)
      else if resType = ''clone_job'' then
        (if length (databaseSecretName d) \<noteq> 0
         then ensureObject cl KJob (Namespace d) (''clone-'' @ Name d)
                (jobForDrupalSiteClone (databaseSecretName d)) w
         else (None, w))
      else if resType = ''cm_php'' then
        ensureObject cl KConfigMap (Namespace d) (''php-fpm-'' @ Name d) updateConfigMapForPHPFPM w
      else if resType = ''cm_nginx'' then
        ensureObject cl KConfigMap (Namespace d) (''nginx-'' @ Name d) updateConfigMapForNginx w
      else if resType = ''cm_settings'' then
        ensureObject cl KConfigMap (Namespace d) (''site-settings-'' @ Name d)
          updateConfigMapForSiteSettings w
      else if resType = ''dbod_cr'' then
        ensureObject cl KDatabase (Namespace d) (Name d) dbodForDrupalSite w
      else if resType = ''backup_schedule'' then
        ensureObject cl KSchedule veleroNamespace (Name d) scheduledBackupsForDrupalSite w
      else (Some (newApplicationError None ErrFunctionDomain), w))"

text \<open>
  The four \<^verbatim>\<open>ensureNo...\<close> functions share one body: get the object under a name, return
  nil when it is not found, delete it otherwise. They differ in the kind and in the name and
  namespace they look under.
\<close>

definition ensureNoObject ::
  "cluster \<Rightarrow> kind \<Rightarrow> string \<Rightarrow> string \<Rightarrow> call list \<Rightarrow> goError option \<times> call list" where
  "ensureNoObject cl k ns name w =
     (case clientGet cl (presentAt cl k) k ns name w of
        (Inl err, w') \<Rightarrow>
          if err = NotFound then (None, w')
          else (Some (newApplicationError (Some (ApiError err)) ErrClientK8s), w')
      | (Inr obj, w') \<Rightarrow>
          (case clientDelete cl k ns name w' of
             (Some err, w'') \<Rightarrow> (Some (newApplicationError (Some (ApiError err)) ErrClientK8s), w'')
           | (None, w'') \<Rightarrow> (None, w'')))"

text \<open>\<^verbatim>\<open>route := &routev1.Route{ObjectMeta: {Name: d.Name, Namespace: d.Namespace}}\<close>\<close>

definition ensureNoRoute :: "cluster \<Rightarrow> DrupalSite \<Rightarrow> call list \<Rightarrow> goError option \<times> call list" where
  "ensureNoRoute cl d w = ensureNoObject cl KRoute (Namespace d) (Name d) w"

text \<open>\<^verbatim>\<open>webdav_route := &routev1.Route{ObjectMeta: {Name: d.Name, Namespace: d.Namespace}}\<close>\<close>

definition ensureNoWebDAVRoute ::
  "cluster \<Rightarrow> DrupalSite \<Rightarrow> call list \<Rightarrow> goError option \<times> call list" where
  "ensureNoWebDAVRoute cl d w = ensureNoObject cl KRoute (Namespace d) (Name d) w"

text \<open>\<^verbatim>\<open>oidc_return_uri := &authz.OidcReturnURI{}\<close>: name and namespace are empty.\<close>

definition ensureNoReturnURI ::
  "cluster \<Rightarrow> DrupalSite \<Rightarrow> call list \<Rightarrow> goError option \<times> call list" where
  "ensureNoReturnURI cl d w = ensureNoObject cl KOidcReturnURI '''' '''' w"

text \<open>\<^verbatim>\<open>schedule := &velerov1.Schedule{ObjectMeta: {Name: d.Name, Namespace: veleroNamespace}}\<close>\<close>

definition ensureNoSchedule ::
  "cluster \<Rightarrow> DrupalSite \<Rightarrow> call list \<Rightarrow> goError option \<times> call list" where
  "ensureNoSchedule cl d w = ensureNoObject cl KSchedule veleroNamespace (Name d) w"

text \<open>
  \<^verbatim>\<open>ensureResources\<close> is a sequence of steps of one shape,
  \<^verbatim>\<open>if transientErr := step(); transientErr != nil { transientErrs = append(transientErrs, transientErr.Wrap(msg)) }\<close>.
  The steps are listed in the order of the source, each with its message; the two steps
  behind \<^verbatim>\<open>isDBODProvisioned\<close> first ask for the Database.
\<close>

type_synonym ensureStep = "string \<times> (call list \<Rightarrow> goError option \<times> call list)"

definition whenDBODProvisioned ::
  "cluster \<Rightarrow> DrupalSite \<Rightarrow> (call list \<Rightarrow> goError option \<times> call list)
     \<Rightarrow> call list \<Rightarrow> goError option \<times> call list" where
  "whenDBODProvisioned cl drp step w =
     (case isDBODProvisioned cl drp w of
        (True, w') \<Rightarrow> step w'
      | (False, w') \<Rightarrow> (None, w'))"

definition ingressSteps :: "globals \<Rightarrow> cluster \<Rightarrow> DrupalSite \<Rightarrow> ensureStep list" where
  "ingressSteps G cl drp =
     (if ConditionTrue drp ''Initialized'' \<and> Publish (Spec drp)
      then [(''%v: for WebDAV Route'', ensureResourceX G cl drp ''webdav_route''),
            (''%v: for Route'', ensureResourceX G cl drp ''route''),
            (''%v: for OidcReturnURI'', ensureResourceX G cl drp ''oidc_return_uri'')]
      else [(''%v: while deleting the WebDAV Route'', ensureNoWebDAVRoute cl drp),
            (''%v: while deleting the Route'', ensureNoRoute cl drp),
            (''%v: while deleting the OidcReturnURI'', ensureNoReturnURI cl drp)])"

definition ensureResourcesSteps :: "globals \<Rightarrow> cluster \<Rightarrow> DrupalSite \<Rightarrow> ensureStep list" where
  "ensureResourcesSteps G cl drp =
     (if length (ExtraConfigurationRepo (Configuration (Spec drp))) > 0
      then [(''%v: for S2I SiteBuilder ImageStream'', ensureResourceX G cl drp ''is_s2i''),
            (''%v: for S2I SiteBuilder BuildConfig'', ensureResourceX G cl drp ''bc_s2i'')]
      else [])
     @ [(''%v: for Drupal PVC'', ensureResourceX G cl drp ''pvc_drupal''),
        (''%v: for DBOD resource'', ensureResourceX G cl drp ''dbod_cr''),
        (''%v: for WebDAV Secret'', ensureResourceX G cl drp ''webdav_secret''),
        (''%v: for PHP-FPM CM'', ensureResourceX G cl drp ''cm_php''),
        (''%v: for Nginx CM'', ensureResourceX G cl drp ''cm_nginx''),
        (''%v: for settings.php CM'', ensureResourceX G cl drp ''cm_settings''),
        (''%v: for Drupal DC'',
           whenDBODProvisioned cl drp (ensureResourceX G cl drp ''deploy_drupal'')),
        (''%v: for Nginx SVC'', ensureResourceX G cl drp ''svc_nginx''),
        (if CloneFrom (Configuration (Spec drp)) = CloneFromNothing G
         then (''%v: for site install Job'',
                 whenDBODProvisioned cl drp (ensureResourceX G cl drp ''site_install_job''))
         else (''%v: for clone Job'',
                 whenDBODProvisioned cl drp (ensureResourceX G cl drp ''clone_job'')))]
     @ ingressSteps G cl drp
     @ (if ConditionTrue drp ''Initialized'' \<and> ConditionTrue drp ''Ready''
        then [(''%v: for Velero Schedule'', ensureResourceX G cl drp ''backup_schedule'')]
        else [])"

definition runStep :: "errors_go \<Rightarrow> goError list \<times> call list \<Rightarrow> ensureStep \<Rightarrow> goError list \<times> call list" where
  "runStep E acc step =
     (case (snd step) (snd acc) of
        (Some transientErr, w') \<Rightarrow> (fst acc @ [Wrap E transientErr (fst step)], w')
      | (None, w') \<Rightarrow> (fst acc, w'))"

definition ensureResources ::
  "errors_go \<Rightarrow> globals \<Rightarrow> cluster \<Rightarrow> DrupalSite \<Rightarrow> call list \<Rightarrow> goError list \<times> call list" where
  "ensureResources E G cl drp w = foldl (runStep E) ([], w) (ensureResourcesSteps G cl drp)"

section \<open>Defaults, validation and clean-up\<close>

text \<open>
  \<^verbatim>\<open>ensureSpecFinalizer\<close>, block by block: the finalizer (the only block that sets
  \<^verbatim>\<open>update\<close>), the default URL, the generated WebDAV password, the \<open>production\<close> label, and
  last the choice of the site to clone from, which lists the production sites of the
  namespace. (\<^verbatim>\<open>LabelSelectorAsSelector\<close> cannot fail on the fixed label.)
\<close>

definition ensureSpecFinalizer_finalizer :: "DrupalSite \<Rightarrow> bool \<times> DrupalSite" where
  "ensureSpecFinalizer_finalizer drp =
     (if finalizerStr \<notin> set (Finalizers drp)
      then (True, drp\<lparr>Finalizers := Finalizers drp @ [finalizerStr]\<rparr>)
      else (False, drp))"

definition ensureSpecFinalizer_siteURL :: "globals \<Rightarrow> DrupalSite \<Rightarrow> DrupalSite" where
  "ensureSpecFinalizer_siteURL G drp =
     (if SiteURL (Spec drp) = ''''
      then (if MainSite (Spec drp)
            then drp\<lparr>Spec := (Spec drp)\<lparr>SiteURL := Namespace drp @ ''.'' @ DefaultDomain G\<rparr>\<rparr>
            else drp\<lparr>Spec := (Spec drp)
                   \<lparr>SiteURL := Name drp @ ''-'' @ Namespace drp @ ''.'' @ DefaultDomain G\<rparr>\<rparr>)
      else drp)"

definition ensureSpecFinalizer_password :: "cluster \<Rightarrow> DrupalSite \<Rightarrow> DrupalSite" where
  "ensureSpecFinalizer_password cl drp =
     (if WebDAVPassword (Configuration (Spec drp)) = ''''
      then drp\<lparr>Spec := (Spec drp)\<lparr>Configuration := (Configuration (Spec drp))
                   \<lparr>WebDAVPassword := generateWebDAVpassword cl\<rparr>\<rparr>\<rparr>
      else drp)"

definition ensureSpecFinalizer_production :: "DrupalSite \<Rightarrow> DrupalSite" where
  "ensureSpecFinalizer_production drp =
     (let exists = (map_of (Labels drp) ''production'' \<noteq> None);
          drp' = (if MainSite (Spec drp) \<and> \<not> exists
                  then drp\<lparr>Labels := AList.update ''production'' ''true'' (Labels drp)\<rparr>
                  else drp)
      in if \<not> MainSite (Spec drp') \<and> exists
         then drp'\<lparr>Labels := AList.delete ''production'' (Labels drp')\<rparr>
         else drp')"

definition ensureSpecFinalizer ::
  "globals \<Rightarrow> cluster \<Rightarrow> DrupalSite \<Rightarrow> call list
     \<Rightarrow> (bool \<times> goError option \<times> DrupalSite) \<times> call list" where
  "ensureSpecFinalizer G cl drp0 w =
     (case ensureSpecFinalizer_finalizer drp0 of
        (update, drp1) \<Rightarrow>
          (let drp = ensureSpecFinalizer_production
                       (ensureSpecFinalizer_password cl (ensureSpecFinalizer_siteURL G drp1))
           in if CloneFrom (Configuration (Spec drp)) = ''''
              then (case clientList cl (sitesAt cl) KDrupalSite (Namespace drp)
                           [(''production'', ''true'')] w of
                      (Inl err, w') \<Rightarrow>
                        ((False, Some (newApplicationError (Some (ApiError err)) ErrClientK8s), drp),
                         w')
                    | (Inr items, w') \<Rightarrow>
                        ((update, None,
                          drp\<lparr>Spec := (Spec drp)\<lparr>Configuration := (Configuration (Spec drp))
                            \<lparr>CloneFrom :=
                               (case items of
                                  item # rest \<Rightarrow>
                                    if \<not> ConditionTrue drp ''Initialized'' \<and> \<not> MainSite (Spec drp)
                                    then Name item else CloneFromNothing G
                                | [] \<Rightarrow> CloneFromNothing G)\<rparr>\<rparr>\<rparr>), w'))
              else ((update, None, drp), w)))"

definition validateSpec :: "globals \<Rightarrow> DrupalSiteSpec \<Rightarrow> goError option" where
  "validateSpec G drpSpec =
     (case ValidateStruct G drpSpec of
        Some err \<Rightarrow> Some (newApplicationError (Some err) ErrInvalidSpec)
      | None \<Rightarrow> None)"

text \<open>
  A pass ends with the pair \<^verbatim>\<open>(ctrl.Result, error)\<close> it returns; the model keeps with it the
  site object as the pass leaves it in memory and the calls made.
\<close>

type_synonym pass = "(Result \<times> goError option) \<times> DrupalSite \<times> call list"

definition returning :: "DrupalSite \<Rightarrow> (Result \<times> goError option) \<times> call list \<Rightarrow> pass" where
  "returning drp r = (fst r, drp, snd r)"

definition cleanupDrupalSite :: "cluster \<Rightarrow> DrupalSite \<Rightarrow> call list \<Rightarrow> pass" where
  "cleanupDrupalSite cl drp0 w =
     (let drp = drp0\<lparr>Finalizers := removeAll finalizerStr (Finalizers drp0)\<rparr> in
      case ensureNoSchedule cl drp w of
        (Some err, w') \<Rightarrow> ((\<lparr>Requeue = False\<rparr>, Some err), drp, w')
      | (None, w') \<Rightarrow> returning drp (updateCRorFailReconcile cl drp w'))"

section \<open>Code-update workflow\<close>

text \<open>
  \<^verbatim>\<open>currentTime.Sub(created)\<close> is a \<^verbatim>\<open>time.Duration\<close>: the difference in nanoseconds, held
  in 64 bits and saturated at both ends. \<^verbatim>\<open>Minutes() < 3\<close> compares the duration, as a
  float, with three minutes; the conversion is monotone and exact at whole minutes, so the
  test is the comparison of the nanoseconds with \<open>3 * 60 * 10^9\<close>.
\<close>

definition minDuration :: int where "minDuration = - (2 ^ 63)"
definition maxDuration :: int where "maxDuration = 2 ^ 63 - 1"

definition Sub :: "int \<Rightarrow> int \<Rightarrow> int" where
  "Sub t u = (if t - u < minDuration then minDuration
              else if t - u > maxDuration then maxDuration else t - u)"

definition MinutesBelow3 :: "int \<Rightarrow> bool" where
  "MinutesBelow3 dur = (dur < 3 * 60 * 1000000000)"

definition didVersionRollOutSucceed ::
  "errors_go \<Rightarrow> cluster \<Rightarrow> DrupalSite \<Rightarrow> call list \<Rightarrow> (bool \<times> goError option) \<times> call list" where
  "didVersionRollOutSucceed E cl d w =
     (case getPodForVersion cl d (releaseID d) w of
        ((pod, err), w') \<Rightarrow>
          if (case err of Some e \<Rightarrow> Temporary E e | None \<Rightarrow> False)
          then ((False, Some (newApplicationError err ErrClientK8s)), w')
          else if Phase pod = PodFailed \<or> Phase pod = PodUnknown
          then ((False, Some (newApplicationError
                   (Some (ErrorNew ''Pod did not roll out successfully''))
                   ErrDeploymentUpdateFailed)), w')
          else if Phase pod = PodPending
          then (if MinutesBelow3 (Sub (timeNow cl) (CreationTimestamp pod))
                then ((True, Some (newApplicationError
                         (Some (ErrorNew ''Waiting for pod to start'')) ErrPodNotRunning)), w')
                else ((False, Some (newApplicationError
                         (Some (ErrorNew ''Pod failed to start after grace period''))
                         ErrDeploymentUpdateFailed)), w'))
          else ((False, None), w'))"

definition ensureUpdatedDeployment ::
  "cluster \<Rightarrow> DrupalSite \<Rightarrow> call list \<Rightarrow> (goError + OperationResult) \<times> call list" where
  "ensureUpdatedDeployment cl d w =
     (if length (databaseSecretName d) \<noteq> 0
      then (case CreateOrUpdate cl KDeployment (Namespace d) (Name d)
                   (deploymentForDrupalSite (databaseSecretName d) (releaseID d)) w of
              (Inl err, w') \<Rightarrow> (Inl (newApplicationError (Some (ApiError err)) ErrClientK8s), w')
            | (Inr res, w') \<Rightarrow> (Inr res, w'))
      else (Inl (newApplicationError (Some (Errorf ''Database secret value empty'' None)) ErrDBOD), w))"

definition rollBackCodeUpdate ::
  "cluster \<Rightarrow> DrupalSite \<Rightarrow> call list \<Rightarrow> goError option \<times> call list" where
  "rollBackCodeUpdate cl d w =
     (if length (databaseSecretName d) \<noteq> 0
      then (case CreateOrUpdate cl KDeployment (Namespace d) (Name d)
                   (deploymentForDrupalSite (databaseSecretName d)
                      (Failsafe (ReleaseID (Status d)))) w of
              (Inl err, w') \<Rightarrow> (Some (newApplicationError (Some (ApiError err)) ErrClientK8s), w')
            | (Inr res, w') \<Rightarrow> (None, w'))
      else (None, w))"

text \<open>
  What \<^verbatim>\<open>updateDrupalVersion\<close> returns: \<^verbatim>\<open>(update, requeue, err, errorMessage)\<close>, with the
  site and the calls. Its second half, from the cache reload on, is a definition of its own.
  (\<^verbatim>\<open>err.Wrap(...)\<close> after a failed roll-out drops its result, as \<^verbatim>\<open>Wrap\<close> returns the wrapped
  error.)
\<close>

type_synonym versionUpdate = "(bool \<times> bool \<times> goError option \<times> string) \<times> DrupalSite \<times> call list"

definition reloadCacheAfterRollOut ::
  "errors_go \<Rightarrow> cluster \<Rightarrow> DrupalSite \<Rightarrow> call list \<Rightarrow> versionUpdate" where
  "reloadCacheAfterRollOut E cl d w =
     (let finish = (\<lambda>sout w'.
            if sout \<noteq> ''''
            then ((True, False, None, ''''),
                  snd (setConditionStatus E d ''CodeUpdateFailed'' True
                         (Some (newApplicationError None (ErrAdHoc ''Error clearing cache''))) False),
                  snd (rollBackCodeUpdate cl d w'))
            else if ConditionTrue d ''CodeUpdateFailed''
            then ((True, False, None, ''''), snd (siteRemoveCondition d ''CodeUpdateFailed''), w')
            else ((False, False, None, ''''), d, w'))
      in case execToServerPodErrOnStderr cl d ''php-fpm'' cacheReload w of
           ((sout, Some stderr), w1) \<Rightarrow>
             (case execToServerPodErrOnStderr cl d ''php-fpm'' cacheReload w1 of
                ((sout', Some stderr'), w2) \<Rightarrow> ((True, False, None, ''''), d, w2)
              | ((sout', None), w2) \<Rightarrow> finish sout' w2)
         | ((sout, None), w1) \<Rightarrow> finish sout w1)"

definition updateDrupalVersion ::
  "errors_go \<Rightarrow> cluster \<Rightarrow> DrupalSite \<Rightarrow> call list \<Rightarrow> versionUpdate" where
  "updateDrupalVersion E cl d w =
     (case ensureUpdatedDeployment cl d w of
        (Inl err, w1) \<Rightarrow>
          ((False, False, Some err, ''%v while deploying the updated Drupal images of version''),
           d, w1)
      | (Inr res, w1) \<Rightarrow>
          if res = OperationResultNone
          then (case didVersionRollOutSucceed E cl d w1 of
                  ((requeue, Some err), w2) \<Rightarrow>
                    if Temporary E err
                    then ((False, False, Some err,
                           ''Temporary error while checking for version roll out''), d, w2)
                    else (case rollBackCodeUpdate cl d w2 of
                            (Some rollBackErr, w3) \<Rightarrow>
                              ((False, False, Some rollBackErr,
                                ''Error while rolling back version''), d, w3)
                          | (None, w3) \<Rightarrow>
                              ((True, False, None, ''''),
                               snd (setConditionStatus E d ''CodeUpdateFailed'' True (Some err) False),
                               w3))
                | ((requeue, None), w2) \<Rightarrow>
                    if requeue then ((False, True, None, ''''), d, w2)
                    else reloadCacheAfterRollOut E cl d w2)
          else ((False, True, None, ''''), d, w1))"

section \<open>Database-schema-update workflow\<close>

definition rollBackDBUpdate ::
  "cluster \<Rightarrow> DrupalSite \<Rightarrow> string \<Rightarrow> call list \<Rightarrow> goError option \<times> call list" where
  "rollBackDBUpdate cl d backupFileName w =
     (case execToServerPodErrOnStderr cl d ''php-fpm'' (restoreBackup backupFileName) w of
        ((sout, Some err), w') \<Rightarrow> (Some (newApplicationError (Some err) ErrPodExec), w')
      | ((sout, None), w') \<Rightarrow> (None, w'))"

definition backupFileName :: string where
  "backupFileName = ''db_backup_update_rollback.sql''"

definition updateDBSchema ::
  "errors_go \<Rightarrow> cluster \<Rightarrow> DrupalSite \<Rightarrow> call list \<Rightarrow> bool \<times> DrupalSite \<times> call list" where
  "updateDBSchema E cl d w =
     (let removeConditions = (\<lambda>d' w'.
            if ConditionTrue d' ''DBUpdatesPending''
            then (let d1 = snd (siteRemoveCondition d' ''DBUpdatesPending'') in
                  (True,
                   if ConditionTrue d1 ''DBUpdatesFailed''
                   then snd (siteRemoveCondition d1 ''DBUpdatesFailed'') else d1,
                   w'))
            else (False, d', w'))
      in case execToServerPodErrOnStderr cl d ''php-fpm'' checkUpdbStatus w of
           ((sout, Some err), w1) \<Rightarrow> (True, d, w1)
         | ((sout, None), w1) \<Rightarrow>
             if sout \<noteq> ''''
             then (case setDBUpdatesPending d of
                     (True, d1) \<Rightarrow> (True, d1, w1)
                   | (False, d1) \<Rightarrow>
                       (case execToServerPodErrOnStderr cl d1 ''php-fpm'' (takeBackup backupFileName) w1 of
                          ((sout', Some err), w2) \<Rightarrow>
                            (True,
                             snd (setConditionStatus E d1 ''DBUpdatesFailed'' True
                                    (Some (newApplicationError (Some err) ErrPodExec)) False),
                             w2)
                        | ((sout', None), w2) \<Rightarrow>
                            (case execToServerPodErrOnStderr cl d1 ''php-fpm'' runUpDBCommand w2 of
                               ((sout'', Some err), w3) \<Rightarrow>
                                 (case rollBackDBUpdate cl d1 backupFileName w3 of
                                    (rollBackErr, w4) \<Rightarrow>
                                      (True,
                                       snd (setConditionStatus E d1 ''DBUpdatesFailed'' True
                                              (Some (newApplicationError rollBackErr ErrDBUpdateFailed))
                                              False),
                                       w4))
                             | ((sout'', None), w3) \<Rightarrow> removeConditions d1 w3)))
             else removeConditions d w1)"

section \<open>The reconcile pass\<close>

text \<open>
  \<^verbatim>\<open>Reconcile\<close> is one long function that returns early from many places. It is modelled in
  its own order as a chain of steps, one per block of the source; a step either ends the pass
  (\<open>Inl\<close>, with what the pass returns) or hands the site and the calls made so far to the
  next step (\<open>Inr\<close>).

  The closure \<^verbatim>\<open>handleTransientErr\<close> returns \<^verbatim>\<open>reconcile.Result{}, err\<close> on a temporary
  error, where \<^verbatim>\<open>err\<close> is the variable of \<^verbatim>\<open>Reconcile\<close> that holds the error of the first
  \<^verbatim>\<open>r.Get\<close>; it is passed in here as \<open>err\<close>. The result of the status update it makes is
  dropped.
\<close>

definition handleTransientErr ::
  "errors_go \<Rightarrow> cluster \<Rightarrow> goError option \<Rightarrow> DrupalSite \<Rightarrow> goError \<Rightarrow> string \<Rightarrow> call list \<Rightarrow> pass" where
  "handleTransientErr E cl err drupalSite transientErr status w =
     (let drupalSite' =
            (if status = ''Ready''
             then snd (setConditionStatus E drupalSite ''Ready'' False (Some transientErr) False)
             else drupalSite);
          w' = snd (updateCRStatusOrFailReconcile cl drupalSite' w)
      in if Temporary E transientErr
         then ((\<lparr>Requeue = False\<rparr>, err), drupalSite', w')
         else ((\<lparr>Requeue = False\<rparr>, None), drupalSite', w'))"

text \<open>Step 1 (init): finalizer and defaults, then validation.\<close>

definition Reconcile_init ::
  "errors_go \<Rightarrow> globals \<Rightarrow> cluster \<Rightarrow> DrupalSite \<Rightarrow> call list \<Rightarrow> pass + DrupalSite \<times> call list" where
  "Reconcile_init E G cl drupalSite w =
     (case ensureSpecFinalizer G cl drupalSite w of
        ((update, Some err, drp), w1) \<Rightarrow>
          (let drp' = snd (setErrorCondition E drp err) in
           Inl (returning drp' (updateCRStatusOrFailReconcile cl drp' w1)))
      | ((update, None, drp), w1) \<Rightarrow>
          if update then Inl (returning drp (updateCRorFailReconcile cl drp w1))
          else (case validateSpec G (Spec drp) of
                  Some err \<Rightarrow>
                    (let drp' = snd (setErrorCondition E drp err) in
                     Inl (returning drp' (updateCRStatusOrFailReconcile cl drp' w1)))
                | None \<Rightarrow> Inr (drp, w1)))"

text \<open>Step 2 (conditions), block by block; each block returns its contribution to \<^verbatim>\<open>update\<close>.\<close>

definition Reconcile_current :: "DrupalSite \<Rightarrow> bool \<times> DrupalSite" where
  "Reconcile_current drupalSite =
     (if Current (ReleaseID (Status drupalSite)) \<noteq> releaseID drupalSite
      then (True, drupalSite\<lparr>Status := (Status drupalSite)
                    \<lparr>ReleaseID := (ReleaseID (Status drupalSite))\<lparr>Current := releaseID drupalSite\<rparr>\<rparr>\<rparr>)
      else (False, drupalSite))"

definition Reconcile_ready ::
  "errors_go \<Rightarrow> cluster \<Rightarrow> DrupalSite \<Rightarrow> call list \<Rightarrow> (bool \<times> DrupalSite) \<times> call list" where
  "Reconcile_ready E cl drupalSite w =
     (case isDrupalSiteReady cl drupalSite w of
        (True, w') \<Rightarrow> (setReady drupalSite, w')
      | (False, w') \<Rightarrow> (setNotReady E drupalSite None, w'))"

definition Reconcile_initialized ::
  "cluster \<Rightarrow> DrupalSite \<Rightarrow> call list \<Rightarrow> (bool \<times> DrupalSite) \<times> call list" where
  "Reconcile_initialized cl drupalSite w =
     (if \<not> ConditionTrue drupalSite ''Initialized''
      then (case isDrupalSiteInstalled cl drupalSite w of
              (True, w1) \<Rightarrow> (setInitialized drupalSite, w1)
            | (False, w1) \<Rightarrow>
                (case isCloneJobCompleted cl drupalSite w1 of
                   (True, w2) \<Rightarrow> (setInitialized drupalSite, w2)
                 | (False, w2) \<Rightarrow> (setNotInitialized drupalSite, w2)))
      else ((False, drupalSite), w))"

text \<open>\<open>None\<close>: the exec failed and the pass returns after a status update.\<close>

definition Reconcile_pending ::
  "cluster \<Rightarrow> DrupalSite \<Rightarrow> call list \<Rightarrow> (bool \<times> DrupalSite) option \<times> call list" where
  "Reconcile_pending cl drupalSite w =
     (if ConditionTrue drupalSite ''DBUpdatesPending'' \<and> \<not> ConditionTrue drupalSite ''DBUpdatesFailed''
      then (case execToServerPodErrOnStderr cl drupalSite ''php-fpm'' checkUpdbStatus w of
              ((sout, Some err), w') \<Rightarrow> (None, w')
            | ((sout, None), w') \<Rightarrow>
                if sout = '''' then (Some (siteRemoveCondition drupalSite ''DBUpdatesPending''), w')
                else (Some (False, drupalSite), w'))
      else (Some (False, drupalSite), w))"

definition Reconcile_clearFailed :: "DrupalSite \<Rightarrow> bool \<times> DrupalSite" where
  "Reconcile_clearFailed drupalSite =
     (if Failsafe (ReleaseID (Status drupalSite)) = releaseID drupalSite
      then (let r1 = (if ConditionTrue drupalSite ''CodeUpdateFailed''
                      then siteRemoveCondition drupalSite ''CodeUpdateFailed''
                      else (False, drupalSite));
                r2 = (if ConditionTrue (snd r1) ''DBUpdatesFailed''
                      then siteRemoveCondition (snd r1) ''DBUpdatesFailed''
                      else (False, snd r1))
            in (fst r2 \<or> fst r1, snd r2))
      else (False, drupalSite))"

definition Reconcile_conditions ::
  "errors_go \<Rightarrow> cluster \<Rightarrow> DrupalSite \<Rightarrow> call list \<Rightarrow> pass + DrupalSite \<times> call list" where
  "Reconcile_conditions E cl drupalSite w =
     (case Reconcile_current drupalSite of
        (u1, d1) \<Rightarrow>
     (case Reconcile_ready E cl d1 w of
        ((u2, d2), w2) \<Rightarrow>
     (case Reconcile_initialized cl d2 w2 of
        ((u3, d3), w3) \<Rightarrow>
     (case Reconcile_pending cl d3 w3 of
        (None, w4) \<Rightarrow> Inl (returning d3 (updateCRStatusOrFailReconcile cl d3 w4))
      | (Some (u4, d4), w4) \<Rightarrow>
          (case Reconcile_clearFailed d4 of
             (u5, d5) \<Rightarrow>
               if u5 \<or> u4 \<or> u3 \<or> u2 \<or> u1
               then Inl (returning d5 (updateCRStatusOrFailReconcile cl d5 w4))
               else Inr (d5, w4))))))"

text \<open>
  Step 2, end: is an update needed? Hands on \<^verbatim>\<open>isUpdateAnnotationSet\<close> and \<^verbatim>\<open>requeueFlag\<close>
  (set by the closure \<^verbatim>\<open>handleNonfatalErr\<close>).
\<close>

definition Reconcile_updateNeeded ::
  "cluster \<Rightarrow> DrupalSite \<Rightarrow> call list \<Rightarrow> pass + bool \<times> goError option \<times> DrupalSite \<times> call list" where
  "Reconcile_updateNeeded cl drupalSite w =
     (case updateNeeded cl drupalSite w of
        ((needed, reconcileErr), w1) \<Rightarrow>
          (let isUpdateAnnotationSet = (map_of (Annotations drupalSite) ''updateInProgress'' \<noteq> None) in
           if \<not> isUpdateAnnotationSet \<and> \<not> ConditionTrue drupalSite ''CodeUpdateFailed''
              \<and> \<not> ConditionTrue drupalSite ''DBUpdatesFailed''
           then (case reconcileErr of
                   Some nonfatalErr \<Rightarrow> Inr (isUpdateAnnotationSet, Some nonfatalErr, drupalSite, w1)
                 | None \<Rightarrow>
                     if needed
                     then (case setUpdateInProgress drupalSite of
                             (True, drp) \<Rightarrow> Inl (returning drp (updateCRorFailReconcile cl drp w1))
                           | (False, drp) \<Rightarrow> Inr (isUpdateAnnotationSet, None, drp, w1))
                     else Inr (isUpdateAnnotationSet, None, drupalSite, w1))
           else Inr (isUpdateAnnotationSet, None, drupalSite, w1)))"

text \<open>Step 3: ensure all resources.\<close>

definition Reconcile_resources ::
  "errors_go \<Rightarrow> globals \<Rightarrow> cluster \<Rightarrow> DrupalSite \<Rightarrow> call list \<Rightarrow> pass + DrupalSite \<times> call list" where
  "Reconcile_resources E G cl drupalSite w =
     (case ensureResources E G cl drupalSite w of
        (transientErrs, w1) \<Rightarrow>
          if transientErrs \<noteq> []
          then (let transientErr = concat_errors E transientErrs;
                    drp = snd (setNotReady E drupalSite (Some transientErr))
                in Inl (handleTransientErr E cl None drp transientErr ''Ready'' w1))
          else Inr (drupalSite, w1))"

text \<open>The code update, when the annotation was set at the start of the pass.\<close>

definition Reconcile_codeUpdate ::
  "errors_go \<Rightarrow> cluster \<Rightarrow> bool \<Rightarrow> DrupalSite \<Rightarrow> call list \<Rightarrow> pass + DrupalSite \<times> call list" where
  "Reconcile_codeUpdate E cl isUpdateAnnotationSet drupalSite w =
     (if isUpdateAnnotationSet \<and> \<not> ConditionTrue drupalSite ''CodeUpdateFailed''
         \<and> \<not> ConditionTrue drupalSite ''DBUpdatesPending''
      then (case updateDrupalVersion E cl drupalSite w of
              ((update, requeue, Some err, errorMessage), drp, w1) \<Rightarrow>
                if Temporary E err then Inl ((\<lparr>Requeue = False\<rparr>, Some err), drp, w1)
                else Inl (handleTransientErr E cl None drp err ''CodeUpdateFailed'' w1)
            | ((update, requeue, None, errorMessage), drp, w1) \<Rightarrow>
                if update then Inl (returning drp (updateCRStatusOrFailReconcile cl drp w1))
                else if requeue then Inl ((\<lparr>Requeue = True\<rparr>, None), drp, w1)
                else Inr (drp, w1))
      else Inr (drupalSite, w))"

text \<open>The database update.\<close>

definition Reconcile_dbUpdate ::
  "errors_go \<Rightarrow> cluster \<Rightarrow> bool \<Rightarrow> DrupalSite \<Rightarrow> call list \<Rightarrow> pass + DrupalSite \<times> call list" where
  "Reconcile_dbUpdate E cl isUpdateAnnotationSet drupalSite w =
     (if isUpdateAnnotationSet \<and> \<not> ConditionTrue drupalSite ''DBUpdatesFailed''
         \<and> \<not> ConditionTrue drupalSite ''CodeUpdateFailed''
      then (case updateDBSchema E cl drupalSite w of
              (update, drp, w1) \<Rightarrow>
                if update then Inl (returning drp (updateCRStatusOrFailReconcile cl drp w1))
                else Inr (drp, w1))
      else Inr (drupalSite, w))"

definition Reconcile_unsetUpdate ::
  "cluster \<Rightarrow> DrupalSite \<Rightarrow> call list \<Rightarrow> pass + DrupalSite \<times> call list" where
  "Reconcile_unsetUpdate cl drupalSite w =
     (case unsetUpdateInProgress drupalSite of
        (True, drp) \<Rightarrow> Inl (returning drp (updateCRorFailReconcile cl drp w))
      | (False, drp) \<Rightarrow> Inr (drp, w))"

text \<open>Step 4: the database must be provisioned.\<close>

definition Reconcile_dbod ::
  "errors_go \<Rightarrow> cluster \<Rightarrow> DrupalSite \<Rightarrow> call list \<Rightarrow> pass + DrupalSite \<times> call list" where
  "Reconcile_dbod E cl drupalSite w =
     (case isDBODProvisioned cl drupalSite w of
        (False, w1) \<Rightarrow>
          (case setNotReady E drupalSite (Some (newApplicationError None ErrDBOD)) of
             (True, drp) \<Rightarrow>
               Inl ((\<lparr>Requeue = True\<rparr>, None), drp, snd (updateCRStatusOrFailReconcile cl drp w1))
           | (False, drp) \<Rightarrow> Inl ((\<lparr>Requeue = True\<rparr>, None), drp, w1))
      | (True, w1) \<Rightarrow> Inr (drupalSite, w1))"

text \<open>The failsafe release, set at the first instantiation and after a successful update.\<close>

definition Reconcile_failsafe ::
  "globals \<Rightarrow> cluster \<Rightarrow> DrupalSite \<Rightarrow> call list \<Rightarrow> pass + DrupalSite \<times> call list" where
  "Reconcile_failsafe G cl drupalSite w =
     (if Current (ReleaseID (Status drupalSite)) \<noteq> Failsafe (ReleaseID (Status drupalSite))
         \<and> \<not> ConditionTrue drupalSite ''DBUpdatesFailed''
         \<and> \<not> ConditionTrue drupalSite ''CodeUpdateFailed''
      then (let drp = drupalSite\<lparr>Status := (Status drupalSite)
                        \<lparr>ReleaseID := (ReleaseID (Status drupalSite))\<lparr>Failsafe := releaseID drupalSite\<rparr>,
                         ServingPodImage :=
                           sitebuilderImageRefToUse G drupalSite (releaseID drupalSite)\<rparr>\<rparr>
            in Inl (returning drp (updateCRStatusOrFailReconcile cl drp w)))
      else Inr (drupalSite, w))"

text \<open>The list of backups, and the end of the pass.\<close>

definition Reconcile_backups ::
  "globals \<Rightarrow> cluster \<Rightarrow> goError option \<Rightarrow> DrupalSite \<Rightarrow> call list \<Rightarrow> pass" where
  "Reconcile_backups G cl requeueFlag drupalSite w =
     (case checkNewBackups G cl drupalSite w of
        ((backupList, Some err), w1) \<Rightarrow> ((\<lparr>Requeue = False\<rparr>, Some err), drupalSite, w1)
      | ((backupList, None), w1) \<Rightarrow>
          if length backupList \<noteq> 0
             \<and> backupListUpdateNeeded backupList (AvailableBackups (Status drupalSite))
          then (let drp = drupalSite\<lparr>Status := (Status drupalSite)
                            \<lparr>AvailableBackups := updateBackupListStatus backupList\<rparr>\<rparr>
                in returning drp (updateCRStatusOrFailReconcile cl drp w1))
          else ((\<lparr>Requeue = False\<rparr>, requeueFlag), drupalSite, w1))"

text \<open>The pass on a site that was fetched and is not being deleted.\<close>

definition Reconcile_site ::
  "errors_go \<Rightarrow> globals \<Rightarrow> cluster \<Rightarrow> DrupalSite \<Rightarrow> call list \<Rightarrow> pass" where
  "Reconcile_site E G cl drupalSite w =
     (case Reconcile_init E G cl drupalSite w of Inl p \<Rightarrow> p | Inr (d1, w1) \<Rightarrow>
     (case Reconcile_conditions E cl d1 w1 of Inl p \<Rightarrow> p | Inr (d2, w2) \<Rightarrow>
     (case Reconcile_updateNeeded cl d2 w2 of Inl p \<Rightarrow> p
      | Inr (isUpdateAnnotationSet, requeueFlag, d3, w3) \<Rightarrow>
     (case Reconcile_resources E G cl d3 w3 of Inl p \<Rightarrow> p | Inr (d4, w4) \<Rightarrow>
     (case Reconcile_codeUpdate E cl isUpdateAnnotationSet d4 w4 of Inl p \<Rightarrow> p | Inr (d5, w5) \<Rightarrow>
     (case Reconcile_dbUpdate E cl isUpdateAnnotationSet d5 w5 of Inl p \<Rightarrow> p | Inr (d6, w6) \<Rightarrow>
     (case Reconcile_unsetUpdate cl d6 w6 of Inl p \<Rightarrow> p | Inr (d7, w7) \<Rightarrow>
     (case Reconcile_dbod E cl d7 w7 of Inl p \<Rightarrow> p | Inr (d8, w8) \<Rightarrow>
     (case Reconcile_failsafe G cl d8 w8 of Inl p \<Rightarrow> p | Inr (d9, w9) \<Rightarrow>
        Reconcile_backups G cl requeueFlag d9 w9)))))))))"

text \<open>
  \<^verbatim>\<open>Reconcile\<close>: fetch the site named by the request (the first call of the pass), handle a
  missing site and a deletion, and reconcile. The site is \<open>None\<close> when none was fetched.
\<close>

definition Reconcile ::
  "errors_go \<Rightarrow> globals \<Rightarrow> cluster \<Rightarrow> string \<Rightarrow> string
     \<Rightarrow> (Result \<times> goError option) \<times> DrupalSite option \<times> call list" where
  "Reconcile E G cl ns name =
     (case clientGet cl (siteAt cl) KDrupalSite ns name [] of
        (Inl err, w) \<Rightarrow>
          if err = NotFound then ((\<lparr>Requeue = False\<rparr>, None), None, w)
          else ((\<lparr>Requeue = False\<rparr>, Some (ApiError err)), None, w)
      | (Inr drupalSite, w) \<Rightarrow>
          (case (if DeletionTimestamp drupalSite \<noteq> None
                 then (if finalizerStr \<in> set (Finalizers drupalSite)
                       then cleanupDrupalSite cl drupalSite w
                       else ((\<lparr>Requeue = False\<rparr>, None), drupalSite, w))
                 else Reconcile_site E G cl drupalSite w) of
             (res, drp, w') \<Rightarrow> (res, Some drp, w')))"

section \<open>Sample inputs\<close>

text \<open>
  One choice of the missing error methods, used where a theorem is run on a concrete input:
  client errors, \<^verbatim>\<open>ErrTemporary\<close> and \<^verbatim>\<open>ErrPodNotRunning\<close> are temporary, every other
  condition is permanent.
\<close>

fun conditionOf :: "goError \<Rightarrow> errCondition option" where
  "conditionOf (ApplicationError inner condition) = Some condition"
| "conditionOf (ApiError e) = None"
| "conditionOf (ErrorNew msg) = None"
| "conditionOf (Errorf msg inner) = None"

definition sampleErrors :: errors_go where
  "sampleErrors =
     \<lparr>Temporary = (\<lambda>e. conditionOf e \<in> {Some ErrClientK8s, Some ErrTemporary, Some ErrPodNotRunning}),
      Wrap = (\<lambda>e msg. case e of
                ApplicationError inner condition \<Rightarrow> ApplicationError (Some (Errorf msg inner)) condition
              | _ \<Rightarrow> Errorf msg (Some e)),
      concat_errors = (\<lambda>es. case es of [] \<Rightarrow> ErrorNew '''' | e # rest \<Rightarrow> e),
      UnwrapError = (\<lambda>e. case conditionOf e of
                       Some ErrDeploymentUpdateFailed \<Rightarrow> ''DeploymentUpdateFailed''
                     | Some ErrClientK8s \<Rightarrow> ''k8sAPIClientError''
                     | _ \<Rightarrow> ''error''),
      ErrorText = (\<lambda>e. ''error'')\<rparr>"

definition sampleGlobals :: globals where
  "sampleGlobals =
     \<lparr>DefaultDomain = ''example.org'', SiteBuilderImage = ''site-builder'',
      CloneFromNothing = ''__nothing__'', md5hex = (\<lambda>s. ''0123456789abcdef0123456789abcdef''),
      ValidateStruct = (\<lambda>s. None)\<rparr>"

text \<open>
  A site that is installed and serving release \<open>v1-r1\<close>: finalizer and defaults in place,
  \<open>Ready\<close> and \<open>Initialized\<close> true, current release set, no failsafe yet.
\<close>

definition sampleSite :: DrupalSite where
  "sampleSite =
     \<lparr>Name = ''site'', Namespace = ''ns'', Labels = [], Annotations = [],
      Finalizers = [finalizerStr], DeletionTimestamp = None,
      Spec = \<lparr>Publish = True, SiteURL = ''site.example.org'', MainSite = False,
               Version = \<lparr>VersionName = ''v1'', ReleaseSpec = ''r1''\<rparr>,
               Configuration = \<lparr>CloneFrom = ''__nothing__'', WebDAVPassword = ''secret'',
                                ExtraConfigurationRepo = ''''\<rparr>\<rparr>,
      Status = \<lparr>Conditions =
                  [\<lparr>condType = ''Ready'', condStatus = CondTrue, condReason = '''', condMessage = ''''\<rparr>,
                   \<lparr>condType = ''Initialized'', condStatus = CondTrue, condReason = '''',
                    condMessage = ''''\<rparr>],
                ReleaseID = \<lparr>Current = ''v1-r1'', Failsafe = ''''\<rparr>,
                ServingPodImage = '''', AvailableBackups = []\<rparr>\<rparr>"

definition samplePod :: Pod where
  "samplePod = \<lparr>PodName = ''site-1'', PodAnnotations = [(''releaseID'', ''v1-r1'')],
                Phase = ''Running'', CreationTimestamp = 0\<rparr>"

text \<open>
  A cluster in which nothing fails: the site is stored, its Deployment runs release
  \<open>v1-r1\<close> with one ready replica and one running pod, the jobs have succeeded, the database
  is provisioned, every route exists, nothing needs changing and every command prints
  nothing.
\<close>

definition sampleCluster :: cluster where
  "sampleCluster =
     \<lparr>fault = (\<lambda>n. None),
      siteAt = (\<lambda>n ns name. if ns = ''ns'' \<and> name = ''site'' then Some sampleSite else None),
      deploymentAt = (\<lambda>n ns name.
         Some \<lparr>TemplateAnnotations = [(''releaseID'', ''v1-r1'')], ReadyReplicas = 1\<rparr>),
      jobAt = (\<lambda>n ns name. Some \<lparr>Succeeded = 1\<rparr>),
      databaseAt = (\<lambda>n ns name. Some \<lparr>DbodInstance = ''db''\<rparr>),
      presentAt = (\<lambda>k n ns name. Some ()),
      podsAt = (\<lambda>n ns labels. [samplePod]),
      sitesAt = (\<lambda>n ns labels. []),
      backupsAt = (\<lambda>n ns labels. []),
      resultAt = (\<lambda>n. OperationResultNone),
      execAt = (\<lambda>n containerName podName ns command. ('''', '''', None)),
      timeNow = 600000000000,
      generateWebDAVpassword = ''0123456789''\<rparr>"

text \<open>The same site before it is initialized: no condition has been set yet.\<close>

definition freshSite :: DrupalSite where
  "freshSite = sampleSite\<lparr>Status := (Status sampleSite)\<lparr>Conditions := []\<rparr>\<rparr>"

text \<open>
  The site in the middle of an update to \<open>v1-r1\<close>: the annotation is set and the failsafe
  release is the previous one, \<open>v0-r0\<close>.
\<close>

definition updatingSite :: DrupalSite where
  "updatingSite =
     sampleSite\<lparr>Annotations := [(''updateInProgress'', ''true'')],
                Status := (Status sampleSite)
                  \<lparr>ReleaseID := \<lparr>Current = ''v1-r1'', Failsafe = ''v0-r0''\<rparr>\<rparr>\<rparr>"

text \<open>
  A cluster in which the install job has succeeded, there is no clone job, and the
  Deployment has no ready replica.
\<close>

definition installJobDoneCluster :: cluster where
  "installJobDoneCluster =
     sampleCluster
       \<lparr>deploymentAt := (\<lambda>n ns name.
           Some \<lparr>TemplateAnnotations = [(''releaseID'', ''v1-r1'')], ReadyReplicas = 0\<rparr>),
        jobAt := (\<lambda>n ns name. if name = ''site-install-site'' then Some \<lparr>Succeeded = 1\<rparr> else None)\<rparr>"

text \<open>Clusters for the roll-out check: the pod of the release is Pending, or has Failed.\<close>

definition pendingPodCluster :: "int \<Rightarrow> cluster" where
  "pendingPodCluster t =
     sampleCluster\<lparr>podsAt := (\<lambda>n ns labels. [samplePod\<lparr>Phase := ''Pending''\<rparr>]), timeNow := t\<rparr>"

definition failedPodCluster :: cluster where
  "failedPodCluster = sampleCluster\<lparr>podsAt := (\<lambda>n ns labels. [samplePod\<lparr>Phase := ''Failed''\<rparr>])\<rparr>"

text \<open>The same, with the third call of the workflow (the roll-back) failing.\<close>

definition failedRollBackCluster :: cluster where
  "failedRollBackCluster =
     failedPodCluster\<lparr>fault := (\<lambda>n. if n = 2 then Some ApiFailure else None)\<rparr>"

text \<open>A cluster in which the cache reload prints to stderr whenever it is run.\<close>

definition reloadFailsCluster :: cluster where
  "reloadFailsCluster =
     sampleCluster
       \<lparr>siteAt := (\<lambda>n ns name. if ns = ''ns'' \<and> name = ''site'' then Some updatingSite else None),
        execAt := (\<lambda>n containerName podName ns command.
           if command = cacheReload then ('''', ''cache rebuild failed'', None)
           else ('''', '''', None))\<rparr>"

text \<open>
  A cluster in which the Service cannot be written (call 12 of the pass on \<open>sampleSite\<close>)
  and the status update that follows (call 19) meets a write conflict.
\<close>

definition conflictCluster :: cluster where
  "conflictCluster =
     sampleCluster\<lparr>fault := (\<lambda>n. if n = 12 then Some ApiFailure
                                 else if n = 19 then Some Conflict else None)\<rparr>"

text \<open>
  The installed site, unpublished, with its failsafe release set; and a cluster that stores
  it, in which its Route \<open>site\<close> is there until call 16 of the pass deletes it, its WebDAV Route
  \<open>webdav-site\<close> and its OidcReturnURI \<open>site\<close> are there throughout, and no other Route or
  OidcReturnURI exists.
\<close>

definition unpublishedSite :: DrupalSite where
  "unpublishedSite =
     sampleSite\<lparr>Spec := (Spec sampleSite)\<lparr>Publish := False\<rparr>,
                Status := (Status sampleSite)
                  \<lparr>ReleaseID := \<lparr>Current = ''v1-r1'', Failsafe = ''v1-r1''\<rparr>\<rparr>\<rparr>"

definition unpublishedCluster :: cluster where
  "unpublishedCluster =
     sampleCluster
       \<lparr>siteAt := (\<lambda>n ns name. if ns = ''ns'' \<and> name = ''site'' then Some unpublishedSite else None),
        presentAt := (\<lambda>k n ns name.
           if k = KRoute \<and> ns = ''ns'' \<and> name = ''site''
           then (if n \<le> 16 then Some () else None)
           else if k = KRoute \<and> ns = ''ns'' \<and> name = ''webdav-site'' then Some ()
           else if k = KOidcReturnURI \<and> ns = ''ns'' \<and> name = ''site'' then Some ()
           else if k = KRoute \<or> k = KOidcReturnURI then None
           else Some ())\<rparr>"

section \<open>Observations on the calls of a pass\<close>

text \<open>
  \<open>extends P w w'\<close>: the calls \<open>w'\<close> are the calls \<open>w\<close> followed by calls that all
  satisfy \<open>P\<close>. Three kinds of call matter to the properties below: writing an ingress
  object (a Route or an OidcReturnURI), running a backup, migration or restore command in the
  server pod, and persisting the site. A call of none of these kinds is \<open>basic\<close>.
\<close>

definition extends :: "(call \<Rightarrow> bool) \<Rightarrow> call list \<Rightarrow> call list \<Rightarrow> bool" where
  "extends P w w' = (\<exists>cs. w' = w @ cs \<and> list_all P cs)"

fun ingressCreate :: "call \<Rightarrow> bool" where
  "ingressCreate (CreateOrUpdateCall k ns name f) = (k = KRoute \<or> k = KOidcReturnURI)"
| "ingressCreate c = False"

fun riskyExec :: "call \<Rightarrow> bool" where
  "riskyExec (ExecCall containerName podName ns command) =
     (command = takeBackup backupFileName \<or> command = runUpDBCommand
      \<or> command = restoreBackup backupFileName)"
| "riskyExec c = False"

fun persist :: "call \<Rightarrow> bool" where
  "persist (UpdateCall drp) = True"
| "persist (StatusUpdateCall drp) = True"
| "persist c = False"

definition basic :: "call \<Rightarrow> bool" where
  "basic c = (\<not> ingressCreate c \<and> \<not> riskyExec c \<and> \<not> persist c)"

definition harmless :: "string list \<Rightarrow> bool" where
  "harmless command = (command \<noteq> takeBackup backupFileName \<and> command \<noteq> runUpDBCommand
      \<and> command \<noteq> restoreBackup backupFileName)"

text \<open>Only three resource types of \<^verbatim>\<open>ensureResourceX\<close> write an ingress object.\<close>

definition ingressType :: "string \<Rightarrow> bool" where
  "ingressType resType =
     (resType = ''route'' \<or> resType = ''oidc_return_uri'' \<or> resType = ''webdav_route'')"

section \<open>Properties of the helpers\<close>

lemma backupNamesDiffer_eq:
  "i + length vs \<le> length s \<Longrightarrow>
   backupNamesDiffer i vs s = (map VeleroName vs \<noteq> map BackupName (take (length vs) (drop i s)))"
proof (induction vs arbitrary: i)
  case Nil
  then show ?case by simp
next
  case (Cons v vs)
  from Cons.prems have lt: "i < length s" and le: "Suc i + length vs \<le> length s" by simp_all
  from lt have d: "drop i s = s ! i # drop (Suc i) s" by (simp add: Cons_nth_drop_Suc)
  show ?case using Cons.IH [OF le] by (simp add: d)
qed

lemma map_BackupName_updateBackupListStatus:
  "map BackupName (updateBackupListStatus v) = map VeleroName v"
  by (induction v) simp_all

lemma length_updateBackupListStatus: "length (updateBackupListStatus v) = length v"
  by (induction v) simp_all

lemma backupListUpdateNeeded_eq:
  "backupListUpdateNeeded v s = (\<not> (length v = length s \<and> map VeleroName v = map BackupName s))"
  by (auto simp: backupListUpdateNeeded_def backupNamesDiffer_eq)

text \<open>
  Claim C9. Comparing a list of velero backups with its own status form reports that no
  update is needed; and in general no update is needed exactly when the two lists have the
  same length and the same names at every position.
\<close>

theorem backupListUpdateNeeded_roundtrip:
  "backupListUpdateNeeded v (updateBackupListStatus v) = False \<and>
   (backupListUpdateNeeded v s = False \<longleftrightarrow>
      length v = length s \<and> map VeleroName v = map BackupName s)"
  by (simp add: backupListUpdateNeeded_eq map_BackupName_updateBackupListStatus
      length_updateBackupListStatus)

text \<open>
  Claim C10. \<^verbatim>\<open>setUpdateInProgress\<close> leaves the annotation equal to "true" and reports a change
  exactly when it was not "true" before; \<^verbatim>\<open>unsetUpdateInProgress\<close> removes the key and
  reports a change exactly when the key was present; a second call of either reports no change
  and returns the site as it is.
\<close>

theorem updateInProgress_idempotent:
  "map_of (Annotations (snd (setUpdateInProgress drp))) ''updateInProgress'' = Some ''true'' \<and>
   fst (setUpdateInProgress drp) = (map_of (Annotations drp) ''updateInProgress'' \<noteq> Some ''true'') \<and>
   setUpdateInProgress (snd (setUpdateInProgress drp)) = (False, snd (setUpdateInProgress drp)) \<and>
   map_of (Annotations (snd (unsetUpdateInProgress drp))) ''updateInProgress'' = None \<and>
   fst (unsetUpdateInProgress drp) = (map_of (Annotations drp) ''updateInProgress'' \<noteq> None) \<and>
   unsetUpdateInProgress (snd (unsetUpdateInProgress drp)) = (False, snd (unsetUpdateInProgress drp))"
  by (auto simp: setUpdateInProgress_def unsetUpdateInProgress_def Let_def update_conv' delete_conv'
      split: option.splits)

subsection \<open>Conditions\<close>

lemma SetCondition_unchanged: "fst (SetCondition cs c) = False \<Longrightarrow> snd (SetCondition cs c) = cs"
  by (induction cs) (auto split: prod.splits)

lemma GetCondition_SetCondition_same:
  "GetCondition (snd (SetCondition cs c)) (condType c) = Some c"
  by (induction cs) (auto split: prod.splits)

lemma GetCondition_SetCondition_other:
  "t \<noteq> condType c \<Longrightarrow> GetCondition (snd (SetCondition cs c)) t = GetCondition cs t"
  by (induction cs) (auto split: prod.splits)

lemma RemoveCondition_unchanged:
  "fst (RemoveCondition cs t) = False \<Longrightarrow> snd (RemoveCondition cs t) = cs"
  by (induction cs) (auto split: prod.splits if_splits)

lemma GetCondition_RemoveCondition_other:
  "t' \<noteq> t \<Longrightarrow> GetCondition (snd (RemoveCondition cs t)) t' = GetCondition cs t'"
  by (induction cs) (auto split: prod.splits)

lemma siteSetCondition_unchanged: "siteSetCondition drp c = (False, drp') \<Longrightarrow> drp' = drp"
  using SetCondition_unchanged [of "Conditions (Status drp)" c]
  by (auto simp: siteSetCondition_def withConditions_def split: prod.splits)

lemma siteRemoveCondition_unchanged: "siteRemoveCondition drp t = (False, drp') \<Longrightarrow> drp' = drp"
  using RemoveCondition_unchanged [of "Conditions (Status drp)" t]
  by (auto simp: siteRemoveCondition_def withConditions_def split: prod.splits)

lemma GetCondition_siteSetCondition:
  "GetCondition (Conditions (Status (snd (siteSetCondition drp c)))) t =
     (if t = condType c then Some c else GetCondition (Conditions (Status drp)) t)"
  using GetCondition_SetCondition_same [of "Conditions (Status drp)" c]
    GetCondition_SetCondition_other [of t c "Conditions (Status drp)"]
  by (auto simp: siteSetCondition_def withConditions_def split: prod.splits)

lemma ConditionTrue_siteSetCondition:
  "ConditionTrue (snd (siteSetCondition drp c)) t =
     (if t = condType c then condStatus c = CondTrue else ConditionTrue drp t)"
  by (simp add: ConditionTrue_def GetCondition_siteSetCondition)

text \<open>Setting or removing a condition touches nothing but the list of conditions.\<close>

lemma siteSetCondition_rest:
  "siteSetCondition drp c = (u, drp') \<Longrightarrow>
     drp' = withConditions drp (Conditions (Status drp'))"
  by (auto simp: siteSetCondition_def withConditions_def split: prod.splits)

lemma siteRemoveCondition_rest:
  "siteRemoveCondition drp t = (u, drp') \<Longrightarrow>
     drp' = withConditions drp (Conditions (Status drp'))"
  by (auto simp: siteRemoveCondition_def withConditions_def split: prod.splits)

subsection \<open>Roll-out check\<close>




lemmas model_defs =
  Reconcile_def Reconcile_site_def Reconcile_init_def Reconcile_conditions_def
  Reconcile_current_def Reconcile_ready_def Reconcile_initialized_def Reconcile_pending_def
  Reconcile_clearFailed_def Reconcile_updateNeeded_def Reconcile_resources_def
  Reconcile_codeUpdate_def Reconcile_dbUpdate_def Reconcile_unsetUpdate_def Reconcile_dbod_def
  Reconcile_failsafe_def Reconcile_backups_def handleTransientErr_def
  ensureSpecFinalizer_def ensureSpecFinalizer_finalizer_def ensureSpecFinalizer_siteURL_def
  ensureSpecFinalizer_password_def ensureSpecFinalizer_production_def validateSpec_def returning_def cleanupDrupalSite_def
  ensureResources_def ensureResourcesSteps_def ingressSteps_def runStep_def whenDBODProvisioned_def
  ensureResourceX_def ensureObject_def ensureNoObject_def ensureNoRoute_def ensureNoWebDAVRoute_def
  ensureNoReturnURI_def ensureNoSchedule_def
  updateDrupalVersion_def reloadCacheAfterRollOut_def rollBackCodeUpdate_def ensureUpdatedDeployment_def
  didVersionRollOutSucceed_def updateDBSchema_def rollBackDBUpdate_def backupFileName_def
  checkNewBackups_def updateNeeded_def getRunningdeployment_def isDBODProvisioned_def
  isDrupalSiteInstalled_def isDrupalSiteReady_def isCloneJobCompleted_def isInstallJobCompleted_def
  execToServerPodErrOnStderr_def execToServerPod_def getRunningPodForVersion_def getPodForVersion_def
  podLabels_def clientGet_def clientList_def clientDelete_def CreateOrUpdate_def clientUpdate_def
  clientStatusUpdate_def execToPodThroughAPI_def index_def
  setConditionStatus_def setReady_def setNotReady_def setInitialized_def setNotInitialized_def
  setErrorCondition_def setDBUpdatesPending_def updateCRorFailReconcile_def
  updateCRStatusOrFailReconcile_def siteSetCondition_def siteRemoveCondition_def withConditions_def
  ConditionTrue_def setUpdateInProgress_def unsetUpdateInProgress_def
  releaseID_def databaseSecretName_def sitebuilderImageRefToUse_def nameVersionHash_def
  checkUpdbStatus_def runUpDBCommand_def takeBackup_def restoreBackup_def checkIfSiteIsInstalled_def
  cacheReload_def finalizerStr_def veleroNamespace_def PodPending_def PodRunning_def PodFailed_def
  PodUnknown_def BackupPhaseCompleted_def emptyPod_def newApplicationError_def
  Sub_def MinutesBelow3_def minDuration_def maxDuration_def backupListUpdateNeeded_def Let_def

lemmas sample_defs =
  sampleErrors_def sampleGlobals_def sampleSite_def samplePod_def sampleCluster_def
  freshSite_def updatingSite_def installJobDoneCluster_def pendingPodCluster_def
  failedPodCluster_def failedRollBackCluster_def reloadFailsCluster_def conflictCluster_def
  unpublishedSite_def unpublishedCluster_def

subsection \<open>Persist helpers\<close>

lemma updateCRStatusOrFailReconcile_calls:
  "snd (updateCRStatusOrFailReconcile cl drp w) = w @ [StatusUpdateCall drp]"
  by (simp add: updateCRStatusOrFailReconcile_def clientStatusUpdate_def split: option.splits)

lemma updateCRorFailReconcile_calls:
  "snd (updateCRorFailReconcile cl drp w) = w @ [UpdateCall drp]"
  by (simp add: updateCRorFailReconcile_def clientUpdate_def split: option.splits)

subsection \<open>Code update: permanent failure of the roll-out\<close>

lemma rollBackCodeUpdate_result:
  "rollBackCodeUpdate cl d w =
     ((case fault cl (length w) of
         Some e \<Rightarrow> Some (newApplicationError (Some (ApiError e)) ErrClientK8s)
       | None \<Rightarrow> None),
      w @ [CreateOrUpdateCall KDeployment (Namespace d) (Name d)
             (deploymentForDrupalSite (databaseSecretName d) (Failsafe (ReleaseID (Status d))))])"
  by (simp add: rollBackCodeUpdate_def CreateOrUpdate_def databaseSecretName_def
      split: option.splits)

text \<open>
  Claim C2, as amended. When the roll-out check of the code update ends in a permanent error,
  the workflow calls create-or-update on the Deployment with the failsafe release. If that
  call succeeds, \<open>CodeUpdateFailed\<close> is set true with reason and message of the roll-out
  error, and the pass persists the status after the roll-back call. If the call fails, the
  workflow returns the roll-back error and leaves the conditions as they were.
\<close>

theorem updateDrupalVersion_permanent_failure:
  assumes "ensureUpdatedDeployment cl d w = (Inr OperationResultNone, w1)"
    and "didVersionRollOutSucceed E cl d w1 = ((requeue, Some err), w2)"
    and "\<not> Temporary E err"
    and "\<not> ConditionTrue d ''CodeUpdateFailed''" and "\<not> ConditionTrue d ''DBUpdatesPending''"
    and "rollBack = CreateOrUpdateCall KDeployment (Namespace d) (Name d)
           (deploymentForDrupalSite (databaseSecretName d) (Failsafe (ReleaseID (Status d))))"
    and "failed = snd (setConditionStatus E d ''CodeUpdateFailed'' True (Some err) False)"
  shows "(fault cl (length w2) = None \<longrightarrow>
            updateDrupalVersion E cl d w = ((True, False, None, ''''), failed, w2 @ [rollBack])
          \<and> GetCondition (Conditions (Status failed)) ''CodeUpdateFailed'' =
              Some \<lparr>condType = ''CodeUpdateFailed'', condStatus = CondTrue,
                    condReason = UnwrapError E err, condMessage = ErrorText E err\<rparr>
          \<and> Reconcile_codeUpdate E cl True d w =
              Inl (fst (updateCRStatusOrFailReconcile cl failed (w2 @ [rollBack])), failed,
                   w2 @ [rollBack, StatusUpdateCall failed]))
       \<and> (\<forall>e. fault cl (length w2) = Some e \<longrightarrow>
            updateDrupalVersion E cl d w =
              ((False, False, Some (newApplicationError (Some (ApiError e)) ErrClientK8s),
                ''Error while rolling back version''), d, w2 @ [rollBack]))"
proof -
  have ok: "updateDrupalVersion E cl d w = ((True, False, None, ''''), failed, w2 @ [rollBack])"
    if "fault cl (length w2) = None"
    using assms that by (simp add: updateDrupalVersion_def rollBackCodeUpdate_result)
  have cond: "GetCondition (Conditions (Status failed)) ''CodeUpdateFailed'' =
      Some \<lparr>condType = ''CodeUpdateFailed'', condStatus = CondTrue,
            condReason = UnwrapError E err, condMessage = ErrorText E err\<rparr>"
    using assms(7) by (simp add: setConditionStatus_def GetCondition_siteSetCondition)
  have pass: "Reconcile_codeUpdate E cl True d w =
      Inl (fst (updateCRStatusOrFailReconcile cl failed (w2 @ [rollBack])), failed,
           w2 @ [rollBack, StatusUpdateCall failed])"
    if "fault cl (length w2) = None"
    using assms(4,5) ok [OF that]
    by (simp add: Reconcile_codeUpdate_def returning_def updateCRStatusOrFailReconcile_calls)
  have bad: "updateDrupalVersion E cl d w =
      ((False, False, Some (newApplicationError (Some (ApiError e)) ErrClientK8s),
        ''Error while rolling back version''), d, w2 @ [rollBack])"
    if "fault cl (length w2) = Some e" for e
    using assms that by (simp add: updateDrupalVersion_def rollBackCodeUpdate_result)
  from ok cond pass bad show ?thesis by blast
qed

lemma failedPod_rollout:
  "ensureUpdatedDeployment cl updatingSite [] =
     (Inr OperationResultNone,
      [CreateOrUpdateCall KDeployment ''ns'' ''site''
         (deploymentForDrupalSite ''dbcredentials-site'' ''v1-r1'')])
   \<and> didVersionRollOutSucceed sampleErrors cl updatingSite
       [CreateOrUpdateCall KDeployment ''ns'' ''site''
          (deploymentForDrupalSite ''dbcredentials-site'' ''v1-r1'')] =
     ((False, Some (ApplicationError (Some (ErrorNew ''Pod did not roll out successfully''))
                      ErrDeploymentUpdateFailed)),
      [CreateOrUpdateCall KDeployment ''ns'' ''site''
         (deploymentForDrupalSite ''dbcredentials-site'' ''v1-r1''),
       ListCall KPod ''ns'' [(''drupalSite'', ''site''), (''app'', ''drupal'')]])
   \<and> \<not> Temporary sampleErrors
         (ApplicationError (Some (ErrorNew ''Pod did not roll out successfully''))
            ErrDeploymentUpdateFailed)
   \<and> \<not> ConditionTrue updatingSite ''CodeUpdateFailed''
   \<and> \<not> ConditionTrue updatingSite ''DBUpdatesPending''"
  if "cl = failedPodCluster \<or> cl = failedRollBackCluster"
  using that by (auto simp: model_defs sample_defs)

theorem updateDrupalVersion_permanent_failure_witness:
  "updateDrupalVersion sampleErrors failedPodCluster updatingSite [] =
     ((True, False, None, ''''),
      snd (setConditionStatus sampleErrors updatingSite ''CodeUpdateFailed'' True
             (Some (ApplicationError (Some (ErrorNew ''Pod did not roll out successfully''))
                      ErrDeploymentUpdateFailed)) False),
      [CreateOrUpdateCall KDeployment ''ns'' ''site''
         (deploymentForDrupalSite ''dbcredentials-site'' ''v1-r1''),
       ListCall KPod ''ns'' [(''drupalSite'', ''site''), (''app'', ''drupal'')],
       CreateOrUpdateCall KDeployment ''ns'' ''site''
         (deploymentForDrupalSite ''dbcredentials-site'' ''v0-r0'')])
   \<and> ConditionTrue
       (snd (setConditionStatus sampleErrors updatingSite ''CodeUpdateFailed'' True
               (Some (ApplicationError (Some (ErrorNew ''Pod did not roll out successfully''))
                        ErrDeploymentUpdateFailed)) False))
       ''CodeUpdateFailed''"
proof -
  note f = failedPod_rollout [of failedPodCluster, simplified]
  have n: "fault failedPodCluster n = None" for n
    by (simp add: sample_defs)
  show ?thesis
    using updateDrupalVersion_permanent_failure
      [OF f [THEN conjunct1] f [THEN conjunct2, THEN conjunct1]
        f [THEN conjunct2, THEN conjunct2, THEN conjunct1]
        f [THEN conjunct2, THEN conjunct2, THEN conjunct2, THEN conjunct1]
        f [THEN conjunct2, THEN conjunct2, THEN conjunct2, THEN conjunct2] refl refl] n
    by (simp add: ConditionTrue_def updatingSite_def sampleSite_def databaseSecretName_def)
qed

text \<open>
  A failed pod and a roll-back write that fails: the workflow returns the error of the
  roll-back, the site is unchanged and \<open>CodeUpdateFailed\<close> is not set.
\<close>

theorem rollback_write_fails_no_condition:
  "ensureUpdatedDeployment failedRollBackCluster updatingSite [] =
     (Inr OperationResultNone,
      [CreateOrUpdateCall KDeployment ''ns'' ''site''
         (deploymentForDrupalSite ''dbcredentials-site'' ''v1-r1'')])
   \<and> didVersionRollOutSucceed sampleErrors failedRollBackCluster updatingSite
       [CreateOrUpdateCall KDeployment ''ns'' ''site''
          (deploymentForDrupalSite ''dbcredentials-site'' ''v1-r1'')] =
     ((False, Some (ApplicationError (Some (ErrorNew ''Pod did not roll out successfully''))
                      ErrDeploymentUpdateFailed)),
      [CreateOrUpdateCall KDeployment ''ns'' ''site''
         (deploymentForDrupalSite ''dbcredentials-site'' ''v1-r1''),
       ListCall KPod ''ns'' [(''drupalSite'', ''site''), (''app'', ''drupal'')]])
   \<and> \<not> Temporary sampleErrors
         (ApplicationError (Some (ErrorNew ''Pod did not roll out successfully''))
            ErrDeploymentUpdateFailed)
   \<and> updateDrupalVersion sampleErrors failedRollBackCluster updatingSite [] =
     ((False, False, Some (ApplicationError (Some (ApiError ApiFailure)) ErrClientK8s),
       ''Error while rolling back version''),
      updatingSite,
      [CreateOrUpdateCall KDeployment ''ns'' ''site''
         (deploymentForDrupalSite ''dbcredentials-site'' ''v1-r1''),
       ListCall KPod ''ns'' [(''drupalSite'', ''site''), (''app'', ''drupal'')],
       CreateOrUpdateCall KDeployment ''ns'' ''site''
         (deploymentForDrupalSite ''dbcredentials-site'' ''v0-r0'')])
   \<and> fault failedRollBackCluster 2 = Some ApiFailure
   \<and> \<not> ConditionTrue updatingSite ''CodeUpdateFailed''"
  by (simp add: model_defs sample_defs)

subsection \<open>What a function adds to the calls\<close>

lemma extends_refl [simp]: "extends P w w"
  by (simp add: extends_def)

lemma extends_snoc: "P c \<Longrightarrow> extends P w (w @ [c])"
  by (simp add: extends_def)

lemma extends_trans: "extends P w w1 \<Longrightarrow> extends P w1 w2 \<Longrightarrow> extends P w w2"
  by (auto simp: extends_def)

lemma extends_mono: "extends P w w' \<Longrightarrow> (\<And>c. P c \<Longrightarrow> Q c) \<Longrightarrow> extends Q w w'"
  by (auto simp: extends_def list_all_iff)

lemma extends_snoc2: "extends P w w1 \<Longrightarrow> P c \<Longrightarrow> extends P w (w1 @ [c])"
  by (auto simp: extends_def)

lemma clientGet_basic: "clientGet cl objAt k ns name w = (r, w') \<Longrightarrow> extends basic w w'"
  by (auto simp: clientGet_def basic_def split: option.splits intro!: extends_snoc)

lemma clientList_basic: "clientList cl itemsAt k ns labels w = (r, w') \<Longrightarrow> extends basic w w'"
  by (auto simp: clientList_def basic_def split: option.splits intro!: extends_snoc)

lemma clientDelete_basic: "clientDelete cl k ns name w = (r, w') \<Longrightarrow> extends basic w w'"
  by (auto simp: clientDelete_def basic_def intro!: extends_snoc)

lemma CreateOrUpdate_basic:
  "CreateOrUpdate cl k ns name f w = (r, w') \<Longrightarrow> k \<noteq> KRoute \<Longrightarrow> k \<noteq> KOidcReturnURI \<Longrightarrow>
     extends basic w w'"
  by (auto simp: CreateOrUpdate_def basic_def split: option.splits intro!: extends_snoc)

lemma execToPodThroughAPI_basic:
  "execToPodThroughAPI cl c p ns command w = (r, w') \<Longrightarrow>
     \<not> riskyExec (ExecCall c p ns command) \<Longrightarrow> extends basic w w'"
  by (auto simp: execToPodThroughAPI_def basic_def intro!: extends_snoc)

lemma getRunningPodForVersion_basic:
  "getRunningPodForVersion cl d rid w = (r, w') \<Longrightarrow> extends basic w w'"
  by (auto simp: getRunningPodForVersion_def split: prod.splits sum.splits if_splits option.splits
      dest!: clientList_basic)

lemma getPodForVersion_basic:
  "getPodForVersion cl d rid w = (r, w') \<Longrightarrow> extends basic w w'"
  by (auto simp: getPodForVersion_def split: prod.splits sum.splits if_splits option.splits
      dest!: clientList_basic)

lemma execToServerPod_basic:
  "execToServerPod cl d c command w = (r, w') \<Longrightarrow> harmless command \<Longrightarrow> extends basic w w'"
  by (auto simp: execToServerPod_def harmless_def split: prod.splits option.splits
      dest!: getRunningPodForVersion_basic execToPodThroughAPI_basic intro: extends_trans)

lemma execToServerPodErrOnStderr_basic:
  "execToServerPodErrOnStderr cl d c command w = (r, w') \<Longrightarrow> harmless command \<Longrightarrow>
     extends basic w w'"
  by (auto simp: execToServerPodErrOnStderr_def split: prod.splits if_splits
      dest!: execToServerPod_basic)

lemma harmless_commands [simp]:
  "harmless checkUpdbStatus" "harmless checkIfSiteIsInstalled" "harmless cacheReload"
  by (simp_all add: harmless_def checkUpdbStatus_def checkIfSiteIsInstalled_def cacheReload_def
      takeBackup_def runUpDBCommand_def restoreBackup_def)

lemma isDrupalSiteReady_basic: "isDrupalSiteReady cl d w = (r, w') \<Longrightarrow> extends basic w w'"
  by (auto simp: isDrupalSiteReady_def split: prod.splits sum.splits dest!: clientGet_basic)

lemma isDrupalSiteInstalled_basic: "isDrupalSiteInstalled cl d w = (r, w') \<Longrightarrow> extends basic w w'"
  by (auto simp: isDrupalSiteInstalled_def split: prod.splits bool.splits option.splits
      dest!: isDrupalSiteReady_basic execToServerPodErrOnStderr_basic intro: extends_trans)


lemma isCloneJobCompleted_basic: "isCloneJobCompleted cl d w = (r, w') \<Longrightarrow> extends basic w w'"
  by (auto simp: isCloneJobCompleted_def split: prod.splits sum.splits dest!: clientGet_basic)

lemma isDBODProvisioned_basic: "isDBODProvisioned cl d w = (r, w') \<Longrightarrow> extends basic w w'"
  by (auto simp: isDBODProvisioned_def split: prod.splits sum.splits dest!: clientGet_basic)

lemma updateNeeded_basic: "updateNeeded cl d w = (r, w') \<Longrightarrow> extends basic w w'"
  by (auto simp: updateNeeded_def getRunningdeployment_def
      split: prod.splits sum.splits if_splits dest!: clientGet_basic)

lemma checkNewBackups_basic: "checkNewBackups G cl d w = (r, w') \<Longrightarrow> extends basic w w'"
  by (auto simp: checkNewBackups_def split: prod.splits sum.splits if_splits
      dest!: clientList_basic)

lemma ensureObject_basic:
  "ensureObject cl k ns name f w = (r, w') \<Longrightarrow> k \<noteq> KRoute \<Longrightarrow> k \<noteq> KOidcReturnURI \<Longrightarrow>
     extends basic w w'"
  by (auto simp: ensureObject_def split: prod.splits sum.splits dest!: CreateOrUpdate_basic)

lemma ensureNoObject_basic: "ensureNoObject cl k ns name w = (r, w') \<Longrightarrow> extends basic w w'"
  by (auto simp: ensureNoObject_def split: prod.splits sum.splits if_splits option.splits
      dest!: clientGet_basic clientDelete_basic intro: extends_trans)

lemma ensureNo_basic:
  "ensureNoRoute cl d w = (r, w') \<Longrightarrow> extends basic w w'"
  "ensureNoWebDAVRoute cl d w = (r, w') \<Longrightarrow> extends basic w w'"
  "ensureNoReturnURI cl d w = (r, w') \<Longrightarrow> extends basic w w'"
  "ensureNoSchedule cl d w = (r, w') \<Longrightarrow> extends basic w w'"
  by (auto simp: ensureNoRoute_def ensureNoWebDAVRoute_def ensureNoReturnURI_def
      ensureNoSchedule_def dest!: ensureNoObject_basic)

lemma CreateOrUpdate_ingress:
  "CreateOrUpdate cl k ns name f w = (r, w') \<Longrightarrow>
     extends (\<lambda>c. basic c \<or> ingressCreate c) w w'"
  by (auto simp: CreateOrUpdate_def basic_def split: option.splits intro!: extends_snoc)

lemma CreateOrUpdate_ingress_snd:
  "extends (\<lambda>c. basic c \<or> ingressCreate c) w (snd (CreateOrUpdate cl k ns name f w))"
  using CreateOrUpdate_ingress [OF surjective_pairing] .

lemma ensureObject_ingress:
  "ensureObject cl k ns name f w = (r, w') \<Longrightarrow> extends (\<lambda>c. basic c \<or> ingressCreate c) w w'"
  by (auto simp: ensureObject_def split: prod.splits sum.splits dest!: CreateOrUpdate_ingress)

lemma ensureResourceX_basic:
  "ensureResourceX G cl d resType w = (r, w') \<Longrightarrow> \<not> ingressType resType \<Longrightarrow> extends basic w w'"
  unfolding ensureResourceX_def ingressType_def
  by (auto split: if_splits prod.splits sum.splits
      dest!: ensureObject_basic clientGet_basic intro: extends_trans)

lemma ensureResourceX_ingress:
  "ensureResourceX G cl d resType w = (r, w') \<Longrightarrow>
     extends (\<lambda>c. basic c \<or> ingressCreate c) w w'"
proof (cases "ingressType resType")
  case False
  assume "ensureResourceX G cl d resType w = (r, w')"
  from ensureResourceX_basic [OF this False] show ?thesis
    by (rule extends_mono) simp
next
  case True
  assume "ensureResourceX G cl d resType w = (r, w')"
  with True show ?thesis
    unfolding ensureResourceX_def ingressType_def
    by (auto dest!: ensureObject_ingress intro: CreateOrUpdate_ingress_snd)
qed

lemma runStep_extends:
  assumes "\<And>w r w'. snd step w = (r, w') \<Longrightarrow> extends P w w'"
    and "runStep E acc step = acc'"
  shows "extends P (snd acc) (snd acc')"
  using assms by (auto simp: runStep_def split: prod.splits option.splits)

lemma foldl_runStep_extends:
  assumes "\<And>step w r w'. step \<in> set steps \<Longrightarrow> snd step w = (r, w') \<Longrightarrow> extends P w w'"
  shows "extends P (snd acc) (snd (foldl (runStep E) acc steps))"
  using assms
proof (induction steps arbitrary: acc)
  case Nil
  then show ?case by simp
next
  case (Cons step steps)
  have 1: "extends P (snd acc) (snd (runStep E acc step))"
    by (rule runStep_extends [OF _ refl]) (rule Cons.prems, simp_all)
  have 2: "extends P (snd (runStep E acc step)) (snd (foldl (runStep E) (runStep E acc step) steps))"
    by (rule Cons.IH) (rule Cons.prems, simp_all)
  from extends_trans [OF 1 2] show ?case by simp
qed

lemma whenDBODProvisioned_extends:
  assumes "\<And>w r w'. step w = (r, w') \<Longrightarrow> extends P w w'" and "\<And>c. basic c \<Longrightarrow> P c"
    and "whenDBODProvisioned cl d step w = (r, w')"
  shows "extends P w w'"
proof -
  obtain b w1 where i: "isDBODProvisioned cl d w = (b, w1)" by (cases "isDBODProvisioned cl d w")
  from isDBODProvisioned_basic [OF i] assms(2) have 1: "extends P w w1" by (rule extends_mono)
  show ?thesis
  proof (cases b)
    case True
    with i assms(3) have "step w1 = (r, w')" by (simp add: whenDBODProvisioned_def)
    from extends_trans [OF 1 assms(1) [OF this]] show ?thesis .
  next
    case False
    with i assms(3) have "w' = w1" by (simp add: whenDBODProvisioned_def)
    with 1 show ?thesis by simp
  qed
qed

lemma ingressSteps_ingress:
  "step \<in> set (ingressSteps G cl d) \<Longrightarrow> snd step w = (r, w') \<Longrightarrow>
     extends (\<lambda>c. basic c \<or> ingressCreate c) w w'"
  by (auto simp: ingressSteps_def split: if_splits
      dest!: ensureResourceX_ingress ensureNo_basic elim: extends_mono)

lemma ingressSteps_basic:
  "\<not> (ConditionTrue d ''Initialized'' \<and> Publish (Spec d)) \<Longrightarrow>
   step \<in> set (ingressSteps G cl d) \<Longrightarrow> snd step w = (r, w') \<Longrightarrow> extends basic w w'"
  by (auto simp: ingressSteps_def split: if_splits dest!: ensureNo_basic)

lemma not_ingressType [simp]:
  "\<not> ingressType ''is_s2i''" "\<not> ingressType ''bc_s2i''" "\<not> ingressType ''pvc_drupal''"
  "\<not> ingressType ''dbod_cr''" "\<not> ingressType ''webdav_secret''" "\<not> ingressType ''cm_php''"
  "\<not> ingressType ''cm_nginx''" "\<not> ingressType ''cm_settings''" "\<not> ingressType ''deploy_drupal''"
  "\<not> ingressType ''svc_nginx''" "\<not> ingressType ''site_install_job''"
  "\<not> ingressType ''clone_job''" "\<not> ingressType ''backup_schedule''"
  by (simp_all add: ingressType_def)

lemma ensureResourcesSteps_extends:
  assumes "\<And>c. basic c \<Longrightarrow> P c"
    and "\<And>step w r w'. step \<in> set (ingressSteps G cl d) \<Longrightarrow> snd step w = (r, w') \<Longrightarrow> extends P w w'"
    and "step \<in> set (ensureResourcesSteps G cl d)" and "snd step w = (r, w')"
  shows "extends P w w'"
proof -
  have x: "extends P w w'" if "ensureResourceX G cl d t w = (r, w')" "\<not> ingressType t" for t w r w'
    using ensureResourceX_basic [OF that] assms(1) by (rule extends_mono)
  have y: "extends P w w'"
    if "whenDBODProvisioned cl d (ensureResourceX G cl d t) w = (r, w')" "\<not> ingressType t"
    for t w r w'
    by (rule whenDBODProvisioned_extends [OF _ assms(1) that(1)]) (rule x [OF _ that(2)])
  from assms(3) consider "step \<in> set (ingressSteps G cl d)"
    | t where "snd step = ensureResourceX G cl d t" "\<not> ingressType t"
    | t where "snd step = whenDBODProvisioned cl d (ensureResourceX G cl d t)" "\<not> ingressType t"
    by (auto simp: ensureResourcesSteps_def split: if_splits)
  then show ?thesis
  proof cases
    case 1
    from assms(2) [OF this assms(4)] show ?thesis .
  next
    case 2
    with assms(4) x show ?thesis by simp
  next
    case 3
    with assms(4) y show ?thesis by simp
  qed
qed

lemma ensureResources_ingress:
  assumes "ensureResources E G cl d w = (r, w')"
  shows "extends (\<lambda>c. basic c \<or> ingressCreate c) w w'"
proof -
  have step: "extends (\<lambda>c. basic c \<or> ingressCreate c) v v'"
    if "step \<in> set (ensureResourcesSteps G cl d)" "snd step v = (x, v')" for step v x v'
    using _ _ that
  proof (rule ensureResourcesSteps_extends)
    show "basic c \<Longrightarrow> basic c \<or> ingressCreate c" for c by simp
    show "extends (\<lambda>c. basic c \<or> ingressCreate c) u u'"
      if "s \<in> set (ingressSteps G cl d)" "snd s u = (y, u')" for s u y u'
      using that by (rule ingressSteps_ingress)
  qed
  have "extends (\<lambda>c. basic c \<or> ingressCreate c) (snd ([] :: goError list, w))
          (snd (foldl (runStep E) ([], w) (ensureResourcesSteps G cl d)))"
    using step by (rule foldl_runStep_extends)
  with assms show ?thesis by (simp add: ensureResources_def)
qed

lemma ensureResources_basic:
  assumes "\<not> (ConditionTrue d ''Initialized'' \<and> Publish (Spec d))"
    and "ensureResources E G cl d w = (r, w')"
  shows "extends basic w w'"
proof -
  have step: "extends basic v v'"
    if "step \<in> set (ensureResourcesSteps G cl d)" "snd step v = (x, v')" for step v x v'
    using _ _ that
  proof (rule ensureResourcesSteps_extends)
    show "basic c \<Longrightarrow> basic c" for c .
    show "extends basic u u'"
      if "s \<in> set (ingressSteps G cl d)" "snd s u = (y, u')" for s u y u'
      using assms(1) that by (rule ingressSteps_basic)
  qed
  have "extends basic (snd ([] :: goError list, w)) (snd (foldl (runStep E) ([], w) (ensureResourcesSteps G cl d)))"
    using step by (rule foldl_runStep_extends)
  with assms(2) show ?thesis by (simp add: ensureResources_def)
qed

lemma ensureSpecFinalizer_basic:
  "ensureSpecFinalizer G cl d w = (r, w') \<Longrightarrow> extends basic w w'"
  by (auto simp: ensureSpecFinalizer_def Let_def split: if_splits prod.splits sum.splits
      dest!: clientList_basic)

lemma didVersionRollOutSucceed_basic:
  "didVersionRollOutSucceed E cl d w = (r, w') \<Longrightarrow> extends basic w w'"
  by (auto simp: didVersionRollOutSucceed_def split: prod.splits if_splits
      dest!: getPodForVersion_basic)

lemma ensureUpdatedDeployment_basic:
  "ensureUpdatedDeployment cl d w = (r, w') \<Longrightarrow> extends basic w w'"
  by (auto simp: ensureUpdatedDeployment_def split: prod.splits sum.splits if_splits
      dest!: CreateOrUpdate_basic)

lemma rollBackCodeUpdate_basic: "rollBackCodeUpdate cl d w = (r, w') \<Longrightarrow> extends basic w w'"
  by (auto simp: rollBackCodeUpdate_result basic_def intro!: extends_snoc)

lemma rollBackCodeUpdate_basic_snd: "extends basic w (snd (rollBackCodeUpdate cl d w))"
  using rollBackCodeUpdate_basic [OF surjective_pairing] .

lemma reloadCacheAfterRollOut_basic:
  "reloadCacheAfterRollOut E cl d w = (r, d', w') \<Longrightarrow> extends basic w w'"
  unfolding reloadCacheAfterRollOut_def Let_def
  by (auto split: prod.splits option.splits if_splits
      dest!: execToServerPodErrOnStderr_basic
      intro: extends_trans rollBackCodeUpdate_basic_snd)

lemma updateDrupalVersion_basic:
  "updateDrupalVersion E cl d w = (r, d', w') \<Longrightarrow> extends basic w w'"
  unfolding updateDrupalVersion_def
  by (auto split: prod.splits sum.splits option.splits if_splits
      dest!: ensureUpdatedDeployment_basic didVersionRollOutSucceed_basic rollBackCodeUpdate_basic
        reloadCacheAfterRollOut_basic
      intro: extends_trans)

subsection \<open>Database update: calls\<close>

lemma execToPodThroughAPI_risky:
  "execToPodThroughAPI cl c p ns command w = (r, w') \<Longrightarrow>
     extends (\<lambda>c. basic c \<or> riskyExec c) w w'"
  by (auto simp: execToPodThroughAPI_def basic_def intro!: extends_snoc)

lemma execToServerPodErrOnStderr_risky:
  "execToServerPodErrOnStderr cl d c command w = (r, w') \<Longrightarrow>
     extends (\<lambda>c. basic c \<or> riskyExec c) w w'"
  by (auto simp: execToServerPodErrOnStderr_def execToServerPod_def
      split: prod.splits option.splits if_splits
      dest!: getRunningPodForVersion_basic execToPodThroughAPI_risky
      elim: extends_mono intro: extends_trans)

lemma rollBackDBUpdate_risky:
  "rollBackDBUpdate cl d f w = (r, w') \<Longrightarrow> extends (\<lambda>c. basic c \<or> riskyExec c) w w'"
  by (auto simp: rollBackDBUpdate_def split: prod.splits option.splits
      dest!: execToServerPodErrOnStderr_risky)

lemma updateDBSchema_risky:
  "updateDBSchema E cl d w = (u, d', w') \<Longrightarrow> extends (\<lambda>c. basic c \<or> riskyExec c) w w'"
  unfolding updateDBSchema_def Let_def
  by (auto split: prod.splits option.splits if_splits bool.splits
      dest!: execToServerPodErrOnStderr_risky rollBackDBUpdate_risky
      intro: extends_trans)

lemma SetCondition_not_changed:
  "fst (SetCondition cs c) = False \<Longrightarrow>
     \<exists>c'. GetCondition cs (condType c) = Some c' \<and> condStatus c' = condStatus c"
  by (induction cs) (auto split: prod.splits if_splits)

lemma setDBUpdatesPending_changes:
  assumes "\<not> ConditionTrue d ''DBUpdatesPending''"
  shows "fst (setDBUpdatesPending d) = True"
proof (rule ccontr)
  let ?c = "\<lparr>condType = ''DBUpdatesPending'', condStatus = CondTrue, condReason = '''',
             condMessage = ''''\<rparr>"
  assume "fst (setDBUpdatesPending d) \<noteq> True"
  then have "fst (SetCondition (Conditions (Status d)) ?c) = False"
    by (simp add: setDBUpdatesPending_def siteSetCondition_def split: prod.splits)
  from SetCondition_not_changed [OF this] assms show False
    by (auto simp: ConditionTrue_def)
qed

lemma updateDBSchema_basic:
  assumes "\<not> ConditionTrue d ''DBUpdatesPending''" and "updateDBSchema E cl d w = (u, d', w')"
  shows "extends basic w w'"
  using assms(2) setDBUpdatesPending_changes [OF assms(1)] assms(1)
  unfolding updateDBSchema_def Let_def
  by (auto split: prod.splits option.splits if_splits bool.splits
      dest!: execToServerPodErrOnStderr_basic)

subsection \<open>What the workflows leave untouched\<close>

lemma snd_siteSetCondition:
  "snd (siteSetCondition d c) = withConditions d (snd (SetCondition (Conditions (Status d)) c))"
  by (simp add: siteSetCondition_def split: prod.splits)

lemma snd_siteRemoveCondition:
  "snd (siteRemoveCondition d t) = withConditions d (snd (RemoveCondition (Conditions (Status d)) t))"
  by (simp add: siteRemoveCondition_def split: prod.splits)

lemma ReleaseID_withConditions [simp]:
  "ReleaseID (Status (withConditions d cs)) = ReleaseID (Status d)"
  by (simp add: withConditions_def)

lemma ReleaseID_siteSetCondition [simp]:
  "ReleaseID (Status (snd (siteSetCondition d c))) = ReleaseID (Status d)"
  by (simp add: snd_siteSetCondition)

lemma ReleaseID_siteRemoveCondition [simp]:
  "ReleaseID (Status (snd (siteRemoveCondition d t))) = ReleaseID (Status d)"
  by (simp add: snd_siteRemoveCondition)

lemma ReleaseID_setConditionStatus [simp]:
  "ReleaseID (Status (snd (setConditionStatus E d t flag err unknown))) = ReleaseID (Status d)"
  by (simp add: setConditionStatus_def Let_def)

lemma ReleaseID_set [simp]:
  "ReleaseID (Status (snd (setReady d))) = ReleaseID (Status d)"
  "ReleaseID (Status (snd (setNotReady E d e))) = ReleaseID (Status d)"
  "ReleaseID (Status (snd (setInitialized d))) = ReleaseID (Status d)"
  "ReleaseID (Status (snd (setNotInitialized d))) = ReleaseID (Status d)"
  "ReleaseID (Status (snd (setErrorCondition E d err))) = ReleaseID (Status d)"
  "ReleaseID (Status (snd (setDBUpdatesPending d))) = ReleaseID (Status d)"
  by (simp_all add: setReady_def setNotReady_def setInitialized_def setNotInitialized_def
      setErrorCondition_def setDBUpdatesPending_def)

lemma ReleaseID_pair:
  "f = (u, d') \<Longrightarrow> ReleaseID (Status (snd f)) = R \<Longrightarrow> ReleaseID (Status d') = R"
  by auto

lemma reloadCacheAfterRollOut_ReleaseID:
  "reloadCacheAfterRollOut E cl d w = (r, d', w') \<Longrightarrow> ReleaseID (Status d') = ReleaseID (Status d)"
  unfolding reloadCacheAfterRollOut_def Let_def
  by (auto split: prod.splits option.splits if_splits)

lemma reloadCacheAfterRollOut_no_update:
  "reloadCacheAfterRollOut E cl d w = ((False, r), d', w') \<Longrightarrow> d' = d"
  unfolding reloadCacheAfterRollOut_def Let_def
  by (auto split: prod.splits option.splits if_splits)

lemma updateDrupalVersion_ReleaseID:
  "updateDrupalVersion E cl d w = (r, d', w') \<Longrightarrow> ReleaseID (Status d') = ReleaseID (Status d)"
  unfolding updateDrupalVersion_def
  by (auto split: prod.splits sum.splits option.splits if_splits
      dest: reloadCacheAfterRollOut_ReleaseID)

lemma updateDrupalVersion_no_update:
  "updateDrupalVersion E cl d w = ((False, r), d', w') \<Longrightarrow> d' = d"
  unfolding updateDrupalVersion_def
  by (auto split: prod.splits sum.splits option.splits if_splits
      dest: reloadCacheAfterRollOut_no_update)

lemma updateDBSchema_ReleaseID:
  "updateDBSchema E cl d w = (u, d', w') \<Longrightarrow> ReleaseID (Status d') = ReleaseID (Status d)"
  unfolding updateDBSchema_def Let_def
  by (auto split: prod.splits option.splits if_splits bool.splits
      dest: ReleaseID_pair [OF _ ReleaseID_set(6)])

lemma updateDBSchema_no_update:
  "updateDBSchema E cl d w = (False, d', w') \<Longrightarrow> d' = d"
  unfolding updateDBSchema_def Let_def
  by (auto split: prod.splits option.splits if_splits bool.splits
      dest: siteSetCondition_unchanged simp: setDBUpdatesPending_def)

subsection \<open>The steps of the pass: what they leave untouched\<close>

lemma handleTransientErr_ReleaseID:
  "handleTransientErr E cl err d e status w = (res, d', w') \<Longrightarrow>
     ReleaseID (Status d') = ReleaseID (Status d)"
  by (auto simp: handleTransientErr_def Let_def split: if_splits)

lemma ensureSpecFinalizer_finalizer_Status [simp]:
  "Status (snd (ensureSpecFinalizer_finalizer d)) = Status d"
  "Spec (snd (ensureSpecFinalizer_finalizer d)) = Spec d"
  by (simp_all add: ensureSpecFinalizer_finalizer_def)

lemma ensureSpecFinalizer_siteURL_Status [simp]:
  "Status (ensureSpecFinalizer_siteURL G d) = Status d"
  "Version (Spec (ensureSpecFinalizer_siteURL G d)) = Version (Spec d)"
  "Publish (Spec (ensureSpecFinalizer_siteURL G d)) = Publish (Spec d)"
  by (simp_all add: ensureSpecFinalizer_siteURL_def)

lemma ensureSpecFinalizer_password_Status [simp]:
  "Status (ensureSpecFinalizer_password cl d) = Status d"
  "Version (Spec (ensureSpecFinalizer_password cl d)) = Version (Spec d)"
  "Publish (Spec (ensureSpecFinalizer_password cl d)) = Publish (Spec d)"
  by (simp_all add: ensureSpecFinalizer_password_def)

lemma ensureSpecFinalizer_production_Status [simp]:
  "Status (ensureSpecFinalizer_production d) = Status d"
  "Spec (ensureSpecFinalizer_production d) = Spec d"
  by (simp_all add: ensureSpecFinalizer_production_def Let_def)

lemma ensureSpecFinalizer_Status:
  assumes "ensureSpecFinalizer G cl d w = ((u, e, d'), w')"
  shows "Status d' = Status d \<and> Version (Spec d') = Version (Spec d)
     \<and> Publish (Spec d') = Publish (Spec d)"
proof -
  obtain u1 d1 where f: "ensureSpecFinalizer_finalizer d = (u1, d1)"
    by (cases "ensureSpecFinalizer_finalizer d")
  from f have d1: "Status d1 = Status d" "Spec d1 = Spec d"
    using ensureSpecFinalizer_finalizer_Status [of d] by simp_all
  from assms d1 show ?thesis
    unfolding ensureSpecFinalizer_def f Let_def
    by (auto split: if_splits prod.splits sum.splits)
qed

lemma Reconcile_init_Inr:
  assumes "Reconcile_init E G cl d w = Inr (d', w')"
  shows "Status d' = Status d \<and> Version (Spec d') = Version (Spec d)
     \<and> Publish (Spec d') = Publish (Spec d)"
proof -
  obtain u e d1 w1 where f: "ensureSpecFinalizer G cl d w = ((u, e, d1), w1)"
    by (cases "ensureSpecFinalizer G cl d w") auto
  from assms have "d' = d1"
    unfolding Reconcile_init_def f Let_def
    by (auto split: option.splits if_splits)
  with ensureSpecFinalizer_Status [OF f] show ?thesis by simp
qed

lemma Reconcile_init_Inl:
  assumes "Reconcile_init E G cl d w = Inl (res, d', w')"
  shows "ReleaseID (Status d') = ReleaseID (Status d)"
proof -
  obtain u e d1 w1 where f: "ensureSpecFinalizer G cl d w = ((u, e, d1), w1)"
    by (cases "ensureSpecFinalizer G cl d w") auto
  from assms have "d' = d1 \<or> (\<exists>err. d' = snd (setErrorCondition E d1 err))"
    unfolding Reconcile_init_def f Let_def returning_def
    by (auto split: option.splits if_splits)
  with ensureSpecFinalizer_Status [OF f] show ?thesis by auto
qed

lemma Reconcile_current_False: "Reconcile_current d = (False, d') \<Longrightarrow>
    d' = d \<and> Current (ReleaseID (Status d)) = releaseID d"
  by (auto simp: Reconcile_current_def split: if_splits)

lemma Reconcile_current_Failsafe:
  "Failsafe (ReleaseID (Status (snd (Reconcile_current d)))) = Failsafe (ReleaseID (Status d))"
  by (simp add: Reconcile_current_def)

lemma Reconcile_ready_False: "Reconcile_ready E cl d w = ((False, d'), w') \<Longrightarrow> d' = d"
  by (auto simp: Reconcile_ready_def setReady_def setNotReady_def setConditionStatus_def Let_def
      split: prod.splits bool.splits dest: siteSetCondition_unchanged)

lemma Reconcile_ready_ReleaseID:
  "Reconcile_ready E cl d w = ((u, d'), w') \<Longrightarrow> ReleaseID (Status d') = ReleaseID (Status d)"
  by (auto simp: Reconcile_ready_def split: prod.splits bool.splits
      dest: ReleaseID_pair [OF _ ReleaseID_set(1)] ReleaseID_pair [OF _ ReleaseID_set(2)])

lemma Reconcile_initialized_False:
  "Reconcile_initialized cl d w = ((False, d'), w') \<Longrightarrow> d' = d"
  by (auto simp: Reconcile_initialized_def setInitialized_def setNotInitialized_def
      split: prod.splits bool.splits if_splits dest: siteSetCondition_unchanged)

lemma Reconcile_initialized_ReleaseID:
  "Reconcile_initialized cl d w = ((u, d'), w') \<Longrightarrow> ReleaseID (Status d') = ReleaseID (Status d)"
  by (auto simp: Reconcile_initialized_def split: prod.splits bool.splits if_splits
      dest: ReleaseID_pair [OF _ ReleaseID_set(3)] ReleaseID_pair [OF _ ReleaseID_set(4)])

lemma Reconcile_pending_False:
  "Reconcile_pending cl d w = (Some (False, d'), w') \<Longrightarrow> d' = d"
  by (auto simp: Reconcile_pending_def split: prod.splits option.splits if_splits
      dest: siteRemoveCondition_unchanged)

lemma Reconcile_pending_ReleaseID:
  "Reconcile_pending cl d w = (Some (u, d'), w') \<Longrightarrow> ReleaseID (Status d') = ReleaseID (Status d)"
  by (auto simp: Reconcile_pending_def split: prod.splits option.splits if_splits
      dest: ReleaseID_pair [OF _ ReleaseID_siteRemoveCondition])

lemma siteRemoveCondition_fst_False:
  "\<not> fst (siteRemoveCondition d t) \<Longrightarrow> snd (siteRemoveCondition d t) = d"
  using siteRemoveCondition_unchanged [of d t "snd (siteRemoveCondition d t)"]
  by (cases "siteRemoveCondition d t") auto

lemma Reconcile_clearFailed_False: "Reconcile_clearFailed d = (False, d') \<Longrightarrow> d' = d"
  by (auto simp: Reconcile_clearFailed_def Let_def siteRemoveCondition_fst_False split: if_splits)

lemma Reconcile_clearFailed_ReleaseID:
  "ReleaseID (Status (snd (Reconcile_clearFailed d))) = ReleaseID (Status d)"
  by (simp add: Reconcile_clearFailed_def Let_def)

lemma Reconcile_conditions_Inr:
  assumes "Reconcile_conditions E cl d w = Inr (d', w')"
  shows "d' = d \<and> Current (ReleaseID (Status d)) = releaseID d"
proof -
  obtain u1 d1 where 1: "Reconcile_current d = (u1, d1)" by (cases "Reconcile_current d")
  obtain u2 d2 w2 where 2: "Reconcile_ready E cl d1 w = ((u2, d2), w2)"
    by (cases "Reconcile_ready E cl d1 w") auto
  obtain u3 d3 w3 where 3: "Reconcile_initialized cl d2 w2 = ((u3, d3), w3)"
    by (cases "Reconcile_initialized cl d2 w2") auto
  obtain r4 w4 where 4: "Reconcile_pending cl d3 w3 = (r4, w4)"
    by (cases "Reconcile_pending cl d3 w3")
  from assms 1 2 3 4 obtain u4 d4 where r4: "r4 = Some (u4, d4)"
    by (cases r4) (auto simp: Reconcile_conditions_def)
  obtain u5 d5 where 5: "Reconcile_clearFailed d4 = (u5, d5)" by (cases "Reconcile_clearFailed d4")
  from assms 1 2 3 4 r4 5 have u: "\<not> u1" "\<not> u2" "\<not> u3" "\<not> u4" "\<not> u5" and d': "d' = d5"
    by (auto simp: Reconcile_conditions_def split: if_splits)
  from u 1 have a: "d1 = d" "Current (ReleaseID (Status d)) = releaseID d"
    using Reconcile_current_False by auto
  from u 2 have b: "d2 = d1" using Reconcile_ready_False by auto
  from u 3 have c: "d3 = d2" using Reconcile_initialized_False by auto
  from u 4 r4 have e: "d4 = d3" using Reconcile_pending_False by auto
  from u 5 have f: "d5 = d4" using Reconcile_clearFailed_False by auto
  from a b c e f d' show ?thesis by simp
qed

lemma Reconcile_conditions_Inl:
  assumes "Reconcile_conditions E cl d w = Inl (res, d', w')"
  shows "Failsafe (ReleaseID (Status d')) = Failsafe (ReleaseID (Status d))"
proof -
  obtain u1 d1 where 1: "Reconcile_current d = (u1, d1)" by (cases "Reconcile_current d")
  obtain u2 d2 w2 where 2: "Reconcile_ready E cl d1 w = ((u2, d2), w2)"
    by (cases "Reconcile_ready E cl d1 w") auto
  obtain u3 d3 w3 where 3: "Reconcile_initialized cl d2 w2 = ((u3, d3), w3)"
    by (cases "Reconcile_initialized cl d2 w2") auto
  obtain r4 w4 where 4: "Reconcile_pending cl d3 w3 = (r4, w4)"
    by (cases "Reconcile_pending cl d3 w3")
  from Reconcile_current_Failsafe [of d] 1
  have a: "Failsafe (ReleaseID (Status d1)) = Failsafe (ReleaseID (Status d))" by simp
  note b = Reconcile_ready_ReleaseID [OF 2]
  note c = Reconcile_initialized_ReleaseID [OF 3]
  show ?thesis
  proof (cases r4)
    case None
    with assms 1 2 3 4 have "d' = d3"
      by (simp add: Reconcile_conditions_def returning_def)
    with a b c show ?thesis by simp
  next
    case (Some x)
    obtain u4 d4 where x: "x = (u4, d4)" by (cases x)
    obtain u5 d5 where 5: "Reconcile_clearFailed d4 = (u5, d5)"
      by (cases "Reconcile_clearFailed d4")
    from Some x 4 have e: "ReleaseID (Status d4) = ReleaseID (Status d3)"
      using Reconcile_pending_ReleaseID by auto
    from Reconcile_clearFailed_ReleaseID [of d4] 5
    have f: "ReleaseID (Status d5) = ReleaseID (Status d4)" by simp
    from assms 1 2 3 4 Some x 5 have "d' = d5"
      by (auto simp: Reconcile_conditions_def returning_def split: if_splits)
    with a b c e f show ?thesis by simp
  qed
qed

lemma setUpdateInProgress_False: "setUpdateInProgress d = (False, d') \<Longrightarrow> d' = d"
  by (auto simp: setUpdateInProgress_def Let_def split: if_splits)

lemma setUpdateInProgress_Status: "Status (snd (setUpdateInProgress d)) = Status d"
  by (simp add: setUpdateInProgress_def Let_def)

lemma unsetUpdateInProgress_Status: "Status (snd (unsetUpdateInProgress d)) = Status d"
  by (simp add: unsetUpdateInProgress_def split: option.splits)

lemma unsetUpdateInProgress_False: "unsetUpdateInProgress d = (False, d') \<Longrightarrow> d' = d"
  by (auto simp: unsetUpdateInProgress_def split: if_splits option.splits)

lemma Reconcile_updateNeeded_Inr:
  "Reconcile_updateNeeded cl d w = Inr (a, f, d', w') \<Longrightarrow> d' = d"
  by (auto simp: Reconcile_updateNeeded_def Let_def
      split: prod.splits option.splits if_splits bool.splits dest: setUpdateInProgress_False)

lemma Reconcile_updateNeeded_Inl:
  "Reconcile_updateNeeded cl d w = Inl (res, d', w') \<Longrightarrow> Status d' = Status d"
  using setUpdateInProgress_Status [of d]
  by (auto simp: Reconcile_updateNeeded_def Let_def returning_def
      split: prod.splits option.splits if_splits bool.splits)

lemma Reconcile_resources_Inr: "Reconcile_resources E G cl d w = Inr (d', w') \<Longrightarrow> d' = d"
  by (auto simp: Reconcile_resources_def Let_def split: prod.splits if_splits)

lemma Reconcile_resources_Inl:
  "Reconcile_resources E G cl d w = Inl (res, d', w') \<Longrightarrow>
     ReleaseID (Status d') = ReleaseID (Status d)"
  by (auto simp: Reconcile_resources_def Let_def split: prod.splits if_splits
      dest!: handleTransientErr_ReleaseID)

lemma Reconcile_codeUpdate_Inr: "Reconcile_codeUpdate E cl a d w = Inr (d', w') \<Longrightarrow> d' = d"
  by (auto simp: Reconcile_codeUpdate_def split: prod.splits option.splits if_splits
      dest: updateDrupalVersion_no_update)

lemma Reconcile_codeUpdate_Inl:
  "Reconcile_codeUpdate E cl a d w = Inl (res, d', w') \<Longrightarrow>
     ReleaseID (Status d') = ReleaseID (Status d)"
  by (auto simp: Reconcile_codeUpdate_def returning_def
      split: prod.splits option.splits if_splits
      dest!: handleTransientErr_ReleaseID dest: updateDrupalVersion_ReleaseID)

lemma Reconcile_dbUpdate_Inr: "Reconcile_dbUpdate E cl a d w = Inr (d', w') \<Longrightarrow> d' = d"
  by (auto simp: Reconcile_dbUpdate_def split: prod.splits if_splits
      dest: updateDBSchema_no_update)

lemma Reconcile_dbUpdate_Inl:
  "Reconcile_dbUpdate E cl a d w = Inl (res, d', w') \<Longrightarrow>
     ReleaseID (Status d') = ReleaseID (Status d)"
  by (auto simp: Reconcile_dbUpdate_def returning_def split: prod.splits if_splits
      dest: updateDBSchema_ReleaseID)

lemma Reconcile_unsetUpdate_Inr: "Reconcile_unsetUpdate cl d w = Inr (d', w') \<Longrightarrow> d' = d"
  by (auto simp: Reconcile_unsetUpdate_def split: prod.splits bool.splits
      dest: unsetUpdateInProgress_False)

lemma Reconcile_unsetUpdate_Inl:
  "Reconcile_unsetUpdate cl d w = Inl (res, d', w') \<Longrightarrow> Status d' = Status d"
  using unsetUpdateInProgress_Status [of d]
  by (auto simp: Reconcile_unsetUpdate_def returning_def split: prod.splits bool.splits)

lemma Reconcile_dbod_Inr: "Reconcile_dbod E cl d w = Inr (d', w') \<Longrightarrow> d' = d"
  by (auto simp: Reconcile_dbod_def split: prod.splits bool.splits)

lemma Reconcile_dbod_Inl:
  "Reconcile_dbod E cl d w = Inl (res, d', w') \<Longrightarrow> ReleaseID (Status d') = ReleaseID (Status d)"
  by (auto simp: Reconcile_dbod_def split: prod.splits bool.splits
      dest: ReleaseID_pair [OF _ ReleaseID_set(2)])

lemma Reconcile_failsafe_Inr: "Reconcile_failsafe G cl d w = Inr (d', w') \<Longrightarrow> d' = d"
  by (auto simp: Reconcile_failsafe_def Let_def split: if_splits)

lemma Reconcile_failsafe_Inl:
  "Reconcile_failsafe G cl d w = Inl (res, d', w') \<Longrightarrow>
     Current (ReleaseID (Status d)) \<noteq> Failsafe (ReleaseID (Status d))
     \<and> \<not> ConditionTrue d ''DBUpdatesFailed'' \<and> \<not> ConditionTrue d ''CodeUpdateFailed''
     \<and> Failsafe (ReleaseID (Status d')) = releaseID d"
  by (auto simp: Reconcile_failsafe_def Let_def returning_def split: if_splits)

lemma Reconcile_backups_ReleaseID:
  "Reconcile_backups G cl f d w = (res, d', w') \<Longrightarrow> ReleaseID (Status d') = ReleaseID (Status d)"
  by (auto simp: Reconcile_backups_def Let_def returning_def
      split: prod.splits option.splits if_splits)

lemma cleanupDrupalSite_Status:
  "cleanupDrupalSite cl d w = (res, d', w') \<Longrightarrow> Status d' = Status d"
  by (auto simp: cleanupDrupalSite_def Let_def returning_def split: prod.splits option.splits)

subsection \<open>Where a pass ends\<close>

lemma ConditionTrue_Status: "Status a = Status b \<Longrightarrow> ConditionTrue a t = ConditionTrue b t"
  by (simp add: ConditionTrue_def)

lemma releaseID_Version: "Version (Spec a) = Version (Spec b) \<Longrightarrow> releaseID a = releaseID b"
  by (simp add: releaseID_def)

lemma Reconcile_init_same:
  assumes "Reconcile_init E G cl d w = Inr (d', w')"
  shows "Status d' = Status d" "releaseID d' = releaseID d"
    "Publish (Spec d') = Publish (Spec d)" "ConditionTrue d' t = ConditionTrue d t"
  using Reconcile_init_Inr [OF assms] ConditionTrue_Status [of d' d] releaseID_Version [of d' d]
  by simp_all

text \<open>
  A pass on a fetched site ends in one of its ten steps. A step that hands on to the next one
  has left the site object as the first step produced it (\<open>d1\<close>).
\<close>

lemma Reconcile_site_cases:
  assumes "Reconcile_site E G cl d w = r"
  obtains
    (init) "Reconcile_init E G cl d w = Inl r"
  | (conditions) d1 w1 where
      "Reconcile_init E G cl d w = Inr (d1, w1)"
      "Reconcile_conditions E cl d1 w1 = Inl r"
  | (updateNeeded) d1 w1 w2 where
      "Reconcile_init E G cl d w = Inr (d1, w1)"
      "Reconcile_conditions E cl d1 w1 = Inr (d1, w2)"
      "Reconcile_updateNeeded cl d1 w2 = Inl r"
  | (resources) d1 w1 w2 a f w3 where
      "Reconcile_init E G cl d w = Inr (d1, w1)"
      "Reconcile_conditions E cl d1 w1 = Inr (d1, w2)"
      "Reconcile_updateNeeded cl d1 w2 = Inr (a, f, d1, w3)"
      "Reconcile_resources E G cl d1 w3 = Inl r"
  | (codeUpdate) d1 w1 w2 a f w3 w4 where
      "Reconcile_init E G cl d w = Inr (d1, w1)"
      "Reconcile_conditions E cl d1 w1 = Inr (d1, w2)"
      "Reconcile_updateNeeded cl d1 w2 = Inr (a, f, d1, w3)"
      "Reconcile_resources E G cl d1 w3 = Inr (d1, w4)"
      "Reconcile_codeUpdate E cl a d1 w4 = Inl r"
  | (dbUpdate) d1 w1 w2 a f w3 w4 w5 where
      "Reconcile_init E G cl d w = Inr (d1, w1)"
      "Reconcile_conditions E cl d1 w1 = Inr (d1, w2)"
      "Reconcile_updateNeeded cl d1 w2 = Inr (a, f, d1, w3)"
      "Reconcile_resources E G cl d1 w3 = Inr (d1, w4)"
      "Reconcile_codeUpdate E cl a d1 w4 = Inr (d1, w5)"
      "Reconcile_dbUpdate E cl a d1 w5 = Inl r"
  | (unsetUpdate) d1 w1 w2 a f w3 w4 w5 w6 where
      "Reconcile_init E G cl d w = Inr (d1, w1)"
      "Reconcile_conditions E cl d1 w1 = Inr (d1, w2)"
      "Reconcile_updateNeeded cl d1 w2 = Inr (a, f, d1, w3)"
      "Reconcile_resources E G cl d1 w3 = Inr (d1, w4)"
      "Reconcile_codeUpdate E cl a d1 w4 = Inr (d1, w5)"
      "Reconcile_dbUpdate E cl a d1 w5 = Inr (d1, w6)"
      "Reconcile_unsetUpdate cl d1 w6 = Inl r"
  | (dbod) d1 w1 w2 a f w3 w4 w5 w6 w7 where
      "Reconcile_init E G cl d w = Inr (d1, w1)"
      "Reconcile_conditions E cl d1 w1 = Inr (d1, w2)"
      "Reconcile_updateNeeded cl d1 w2 = Inr (a, f, d1, w3)"
      "Reconcile_resources E G cl d1 w3 = Inr (d1, w4)"
      "Reconcile_codeUpdate E cl a d1 w4 = Inr (d1, w5)"
      "Reconcile_dbUpdate E cl a d1 w5 = Inr (d1, w6)"
      "Reconcile_unsetUpdate cl d1 w6 = Inr (d1, w7)"
      "Reconcile_dbod E cl d1 w7 = Inl r"
  | (failsafe) d1 w1 w2 a f w3 w4 w5 w6 w7 w8 where
      "Reconcile_init E G cl d w = Inr (d1, w1)"
      "Reconcile_conditions E cl d1 w1 = Inr (d1, w2)"
      "Reconcile_updateNeeded cl d1 w2 = Inr (a, f, d1, w3)"
      "Reconcile_resources E G cl d1 w3 = Inr (d1, w4)"
      "Reconcile_codeUpdate E cl a d1 w4 = Inr (d1, w5)"
      "Reconcile_dbUpdate E cl a d1 w5 = Inr (d1, w6)"
      "Reconcile_unsetUpdate cl d1 w6 = Inr (d1, w7)"
      "Reconcile_dbod E cl d1 w7 = Inr (d1, w8)"
      "Reconcile_failsafe G cl d1 w8 = Inl r"
  | (backups) d1 w1 w2 a f w3 w4 w5 w6 w7 w8 w9 where
      "Reconcile_init E G cl d w = Inr (d1, w1)"
      "Reconcile_conditions E cl d1 w1 = Inr (d1, w2)"
      "Reconcile_updateNeeded cl d1 w2 = Inr (a, f, d1, w3)"
      "Reconcile_resources E G cl d1 w3 = Inr (d1, w4)"
      "Reconcile_codeUpdate E cl a d1 w4 = Inr (d1, w5)"
      "Reconcile_dbUpdate E cl a d1 w5 = Inr (d1, w6)"
      "Reconcile_unsetUpdate cl d1 w6 = Inr (d1, w7)"
      "Reconcile_dbod E cl d1 w7 = Inr (d1, w8)"
      "Reconcile_failsafe G cl d1 w8 = Inr (d1, w9)"
      "Reconcile_backups G cl f d1 w9 = r"
proof (cases "Reconcile_init E G cl d w")
  case (Inl p)
  with assms init show ?thesis by (simp add: Reconcile_site_def)
next
  case (Inr s1)
  then obtain d1 w1 where p1: "Reconcile_init E G cl d w = Inr (d1, w1)" by (cases s1) auto
  note r1 = assms [unfolded Reconcile_site_def p1, simplified]
  show ?thesis
  proof (cases "Reconcile_conditions E cl d1 w1")
    case (Inl p)
    with r1 conditions [OF p1] show ?thesis by simp
  next
    case (Inr s2)
    then obtain d2 w2 where "Reconcile_conditions E cl d1 w1 = Inr (d2, w2)" by (cases s2) auto
    with Reconcile_conditions_Inr [OF this]
    have p2: "Reconcile_conditions E cl d1 w1 = Inr (d1, w2)" by simp
    note r2 = r1 [unfolded p2, simplified]
    show ?thesis
    proof (cases "Reconcile_updateNeeded cl d1 w2")
      case (Inl p)
      with r2 updateNeeded [OF p1 p2] show ?thesis by simp
    next
      case (Inr s3)
      then obtain a f d3 w3 where "Reconcile_updateNeeded cl d1 w2 = Inr (a, f, d3, w3)"
        by (cases s3) auto
      with Reconcile_updateNeeded_Inr [OF this]
      have p3: "Reconcile_updateNeeded cl d1 w2 = Inr (a, f, d1, w3)" by simp
      note r3 = r2 [unfolded p3, simplified]
      show ?thesis
      proof (cases "Reconcile_resources E G cl d1 w3")
        case (Inl p)
        with r3 resources [OF p1 p2 p3] show ?thesis by simp
      next
        case (Inr s4)
        then obtain d4 w4 where "Reconcile_resources E G cl d1 w3 = Inr (d4, w4)"
          by (cases s4) auto
        with Reconcile_resources_Inr [OF this]
        have p4: "Reconcile_resources E G cl d1 w3 = Inr (d1, w4)" by simp
        note r4 = r3 [unfolded p4, simplified]
        show ?thesis
        proof (cases "Reconcile_codeUpdate E cl a d1 w4")
          case (Inl p)
          with r4 codeUpdate [OF p1 p2 p3 p4] show ?thesis by simp
        next
          case (Inr s5)
          then obtain d5 w5 where "Reconcile_codeUpdate E cl a d1 w4 = Inr (d5, w5)"
            by (cases s5) auto
          with Reconcile_codeUpdate_Inr [OF this]
          have p5: "Reconcile_codeUpdate E cl a d1 w4 = Inr (d1, w5)" by simp
          note r5 = r4 [unfolded p5, simplified]
          show ?thesis
          proof (cases "Reconcile_dbUpdate E cl a d1 w5")
            case (Inl p)
            with r5 dbUpdate [OF p1 p2 p3 p4 p5] show ?thesis by simp
          next
            case (Inr s6)
            then obtain d6 w6 where "Reconcile_dbUpdate E cl a d1 w5 = Inr (d6, w6)"
              by (cases s6) auto
            with Reconcile_dbUpdate_Inr [OF this]
            have p6: "Reconcile_dbUpdate E cl a d1 w5 = Inr (d1, w6)" by simp
            note r6 = r5 [unfolded p6, simplified]
            show ?thesis
            proof (cases "Reconcile_unsetUpdate cl d1 w6")
              case (Inl p)
              with r6 unsetUpdate [OF p1 p2 p3 p4 p5 p6] show ?thesis by simp
            next
              case (Inr s7)
              then obtain d7 w7 where "Reconcile_unsetUpdate cl d1 w6 = Inr (d7, w7)"
                by (cases s7) auto
              with Reconcile_unsetUpdate_Inr [OF this]
              have p7: "Reconcile_unsetUpdate cl d1 w6 = Inr (d1, w7)" by simp
              note r7 = r6 [unfolded p7, simplified]
              show ?thesis
              proof (cases "Reconcile_dbod E cl d1 w7")
                case (Inl p)
                with r7 dbod [OF p1 p2 p3 p4 p5 p6 p7] show ?thesis by simp
              next
                case (Inr s8)
                then obtain d8 w8 where "Reconcile_dbod E cl d1 w7 = Inr (d8, w8)"
                  by (cases s8) auto
                with Reconcile_dbod_Inr [OF this]
                have p8: "Reconcile_dbod E cl d1 w7 = Inr (d1, w8)" by simp
                note r8 = r7 [unfolded p8, simplified]
                show ?thesis
                proof (cases "Reconcile_failsafe G cl d1 w8")
                  case (Inl p)
                  with r8 failsafe [OF p1 p2 p3 p4 p5 p6 p7 p8] show ?thesis by simp
                next
                  case (Inr s9)
                  then obtain d9 w9 where "Reconcile_failsafe G cl d1 w8 = Inr (d9, w9)"
                    by (cases s9) auto
                  with Reconcile_failsafe_Inr [OF this]
                  have p9: "Reconcile_failsafe G cl d1 w8 = Inr (d1, w9)" by simp
                  note r9 = r8 [unfolded p9, simplified]
                  from backups [OF p1 p2 p3 p4 p5 p6 p7 p8 p9 r9] show ?thesis .
                qed
              qed
            qed
          qed
        qed
      qed
    qed
  qed
qed

subsection \<open>The failsafe release over a whole pass\<close>

lemma Reconcile_site_failsafe:
  assumes "Reconcile_site E G cl d w = (res, d', w')"
  shows "Failsafe (ReleaseID (Status d')) = Failsafe (ReleaseID (Status d))
     \<or> (Current (ReleaseID (Status d)) \<noteq> Failsafe (ReleaseID (Status d))
        \<and> \<not> ConditionTrue d ''DBUpdatesFailed'' \<and> \<not> ConditionTrue d ''CodeUpdateFailed''
        \<and> Current (ReleaseID (Status d)) = releaseID d
        \<and> Failsafe (ReleaseID (Status d')) = Current (ReleaseID (Status d)))"
  using assms
proof (cases rule: Reconcile_site_cases)
  case init
  from Reconcile_init_Inl [OF this] show ?thesis by simp
next
  case (conditions d1 w1)
  from Reconcile_init_same(1) [OF conditions(1)] Reconcile_conditions_Inl [OF conditions(2)]
  show ?thesis by simp
next
  case (updateNeeded d1 w1 w2)
  from Reconcile_init_same(1) [OF updateNeeded(1)] Reconcile_updateNeeded_Inl [OF updateNeeded(3)]
  show ?thesis by simp
next
  case (resources d1 w1 w2 a f w3)
  from Reconcile_init_same(1) [OF resources(1)] Reconcile_resources_Inl [OF resources(4)]
  show ?thesis by simp
next
  case (codeUpdate d1 w1 w2 a f w3 w4)
  from Reconcile_init_same(1) [OF codeUpdate(1)] Reconcile_codeUpdate_Inl [OF codeUpdate(5)]
  show ?thesis by simp
next
  case (dbUpdate d1 w1 w2 a f w3 w4 w5)
  from Reconcile_init_same(1) [OF dbUpdate(1)] Reconcile_dbUpdate_Inl [OF dbUpdate(6)]
  show ?thesis by simp
next
  case (unsetUpdate d1 w1 w2 a f w3 w4 w5 w6)
  from Reconcile_init_same(1) [OF unsetUpdate(1)] Reconcile_unsetUpdate_Inl [OF unsetUpdate(7)]
  show ?thesis by simp
next
  case (dbod d1 w1 w2 a f w3 w4 w5 w6 w7)
  from Reconcile_init_same(1) [OF dbod(1)] Reconcile_dbod_Inl [OF dbod(8)]
  show ?thesis by simp
next
  case (failsafe d1 w1 w2 a f w3 w4 w5 w6 w7 w8)
  note s = Reconcile_init_same [OF failsafe(1)]
  from Reconcile_conditions_Inr [OF failsafe(2)]
  have c: "Current (ReleaseID (Status d1)) = releaseID d1" by simp
  from Reconcile_failsafe_Inl [OF failsafe(9)] c s show ?thesis by simp
next
  case (backups d1 w1 w2 a f w3 w4 w5 w6 w7 w8 w9)
  from Reconcile_init_same(1) [OF backups(1)] Reconcile_backups_ReleaseID [OF backups(10)]
  show ?thesis by simp
qed

text \<open>
  Claim C1. A reconcile pass fetches the site \<open>d\<close> and works on it. At the end of the pass the
  failsafe release of the site is the one it was fetched with, unless, on the site as
  fetched, the current release differs from the failsafe release and neither
  \<open>DBUpdatesFailed\<close> nor \<open>CodeUpdateFailed\<close> is true; the failsafe release is then the current
  release, which is the release identifier derived from the spec.
\<close>

theorem Reconcile_failsafe_assignment:
  assumes "fst (clientGet cl (siteAt cl) KDrupalSite ns name []) = Inr d"
  shows "\<exists>d'. fst (snd (Reconcile E G cl ns name)) = Some d'
           \<and> (Failsafe (ReleaseID (Status d')) = Failsafe (ReleaseID (Status d))
              \<or> (Current (ReleaseID (Status d)) \<noteq> Failsafe (ReleaseID (Status d))
                 \<and> \<not> ConditionTrue d ''DBUpdatesFailed''
                 \<and> \<not> ConditionTrue d ''CodeUpdateFailed''
                 \<and> Current (ReleaseID (Status d)) = releaseID d
                 \<and> Failsafe (ReleaseID (Status d')) = Current (ReleaseID (Status d))))"
proof -
  obtain r w0 where g: "clientGet cl (siteAt cl) KDrupalSite ns name [] = (r, w0)"
    by (cases "clientGet cl (siteAt cl) KDrupalSite ns name []")
  with assms have r: "r = Inr d" by simp
  show ?thesis
  proof (cases "DeletionTimestamp d \<noteq> None")
    case True
    show ?thesis
    proof (cases "finalizerStr \<in> set (Finalizers d)")
      case True
      obtain res d' w' where c: "cleanupDrupalSite cl d w0 = (res, d', w')"
        by (cases "cleanupDrupalSite cl d w0")
      from cleanupDrupalSite_Status [OF c] c g r True \<open>DeletionTimestamp d \<noteq> None\<close>
      show ?thesis by (simp add: Reconcile_def)
    next
      case False
      with g r \<open>DeletionTimestamp d \<noteq> None\<close> show ?thesis by (simp add: Reconcile_def)
    qed
  next
    case False
    obtain res d' w' where s: "Reconcile_site E G cl d w0 = (res, d', w')"
      by (cases "Reconcile_site E G cl d w0")
    from Reconcile_site_failsafe [OF s] s g r False show ?thesis by (simp add: Reconcile_def)
  qed
qed

theorem Reconcile_failsafe_assignment_witness:
  "fst (clientGet sampleCluster (siteAt sampleCluster) KDrupalSite ''ns'' ''site'' []) =
     Inr sampleSite
   \<and> fst (snd (Reconcile sampleErrors sampleGlobals sampleCluster ''ns'' ''site'')) =
       Some (sampleSite\<lparr>Status := (Status sampleSite)
               \<lparr>ReleaseID := \<lparr>Current = ''v1-r1'', Failsafe = ''v1-r1''\<rparr>,
                ServingPodImage := ''site-builder:v1-r1''\<rparr>\<rparr>)
   \<and> Failsafe (ReleaseID (Status sampleSite)) = ''''
   \<and> Current (ReleaseID (Status sampleSite)) = ''v1-r1''
   \<and> releaseID sampleSite = ''v1-r1''
   \<and> ConditionTrue sampleSite ''DBUpdatesFailed'' = False
   \<and> ConditionTrue sampleSite ''CodeUpdateFailed'' = False"
  using Reconcile_failsafe_assignment
    [of sampleCluster "''ns''" "''site''" sampleSite sampleErrors sampleGlobals]
  by (simp add: model_defs sample_defs)

subsection \<open>The grace period of the roll-out check\<close>



subsection \<open>Initialized\<close>

lemma isDrupalSiteReady_eq:
  "isDrupalSiteReady cl d w =
     (fault cl (length w) = None
      \<and> (\<exists>dep. deploymentAt cl (length w) (Namespace d) (Name d) = Some dep
                \<and> ReadyReplicas dep \<noteq> 0),
      w @ [GetCall KDeployment (Namespace d) (Name d)])"
  by (auto simp: isDrupalSiteReady_def clientGet_def split: option.splits)

lemma isCloneJobCompleted_eq:
  "isCloneJobCompleted cl d w =
     (fault cl (length w) = None
      \<and> (\<exists>job. jobAt cl (length w) (Namespace d) (''clone-'' @ Name d) = Some job
                \<and> Succeeded job \<noteq> 0),
      w @ [GetCall KJob (Namespace d) (''clone-'' @ Name d)])"
  by (auto simp: isCloneJobCompleted_def clientGet_def split: option.splits)

lemma getRunningPodForVersion_eq:
  "getRunningPodForVersion cl d rid w = ((pod, err), w') \<Longrightarrow>
     w' = w @ [ListCall KPod (Namespace d) (podLabels d)]
     \<and> (err = None \<longleftrightarrow>
          fault cl (length w) = None
          \<and> find (\<lambda>v. index (PodAnnotations v) ''releaseID'' = rid)
                (podsAt cl (length w) (Namespace d) (podLabels d)) = Some pod
          \<and> Phase pod = PodRunning)"
  by (auto simp: getRunningPodForVersion_def clientList_def newApplicationError_def emptyPod_def
      PodRunning_def split: option.splits if_splits)

lemma getRunningPodForVersion_running:
  "getRunningPodForVersion cl d rid w = ((pod, err), w') \<Longrightarrow> fault cl (length w) = None \<Longrightarrow>
   find (\<lambda>v. index (PodAnnotations v) ''releaseID'' = rid)
     (podsAt cl (length w) (Namespace d) (podLabels d)) = Some p \<Longrightarrow>
   Phase p = PodRunning \<Longrightarrow> p = pod \<and> err = None"
  by (auto simp: getRunningPodForVersion_def clientList_def split: option.splits if_splits)

lemma isDrupalSiteInstalled_eq:
  assumes "n = length w"
    and "ready = (fault cl n = None
           \<and> (\<exists>dep. deploymentAt cl n (Namespace d) (Name d) = Some dep \<and> ReadyReplicas dep \<noteq> 0))"
    and "running = (\<lambda>pod. fault cl (n + 1) = None
           \<and> find (\<lambda>v. index (PodAnnotations v) ''releaseID'' = releaseID d)
                 (podsAt cl (n + 1) (Namespace d) (podLabels d)) = Some pod
           \<and> Phase pod = PodRunning)"
  shows "fst (isDrupalSiteInstalled cl d w) =
           (ready \<and> (\<exists>pod sout. running pod
              \<and> execAt cl (n + 2) ''php-fpm'' (PodName pod) (Namespace d) checkIfSiteIsInstalled =
                  (sout, '''', None)))"
    and "length (snd (isDrupalSiteInstalled cl d w)) =
           (if \<not> ready then n + 1 else if (\<exists>pod. running pod) then n + 3 else n + 2)"
proof -
  let ?w1 = "w @ [GetCall KDeployment (Namespace d) (Name d)]"
  have rd: "isDrupalSiteReady cl d w = (ready, ?w1)"
    unfolding assms(1,2) by (rule isDrupalSiteReady_eq)
  obtain pod err w2 where g: "getRunningPodForVersion cl d (releaseID d) ?w1 = ((pod, err), w2)"
    by (cases "getRunningPodForVersion cl d (releaseID d) ?w1") auto
  note e = getRunningPodForVersion_eq [OF g]
  from e assms(1,3) have r: "err = None \<longleftrightarrow> running pod" by simp
  from getRunningPodForVersion_running [OF g] assms(1,3)
  have u: "running p \<Longrightarrow> p = pod \<and> err = None" for p by simp
  from e have l: "length w2 = n + 2" using assms(1) by simp
  obtain sout serr xerr where
    x: "execAt cl (n + 2) ''php-fpm'' (PodName pod) (Namespace d) checkIfSiteIsInstalled =
          (sout, serr, xerr)"
    by (cases "execAt cl (n + 2) ''php-fpm'' (PodName pod) (Namespace d) checkIfSiteIsInstalled")
  show "fst (isDrupalSiteInstalled cl d w) =
           (ready \<and> (\<exists>pod sout. running pod
              \<and> execAt cl (n + 2) ''php-fpm'' (PodName pod) (Namespace d) checkIfSiteIsInstalled =
                  (sout, '''', None)))"
  proof (cases ready)
    case False
    with rd assms(1) show ?thesis by (simp add: isDrupalSiteInstalled_def)
  next
    case True
    show ?thesis
    proof (cases err)
      case (Some a)
      with u have "\<not> running p" for p by blast
      with True Some g rd show ?thesis
        by (simp add: isDrupalSiteInstalled_def execToServerPodErrOnStderr_def
            execToServerPod_def)
    next
      case None
      with r have rp: "running pod" by simp
      have "fst (isDrupalSiteInstalled cl d w) = (xerr = None \<and> serr = '''')"
        using True None g rd x l
        by (auto simp: isDrupalSiteInstalled_def execToServerPodErrOnStderr_def
            execToServerPod_def execToPodThroughAPI_def)
      also have "\<dots> = (\<exists>p sout. running p
              \<and> execAt cl (n + 2) ''php-fpm'' (PodName p) (Namespace d) checkIfSiteIsInstalled =
                  (sout, '''', None))"
      proof
        assume "xerr = None \<and> serr = ''''"
        with x rp show "\<exists>p sout. running p
              \<and> execAt cl (n + 2) ''php-fpm'' (PodName p) (Namespace d) checkIfSiteIsInstalled =
                  (sout, '''', None)" by blast
      next
        assume "\<exists>p sout. running p
              \<and> execAt cl (n + 2) ''php-fpm'' (PodName p) (Namespace d) checkIfSiteIsInstalled =
                  (sout, '''', None)"
        then obtain p so where "running p"
          and ex: "execAt cl (n + 2) ''php-fpm'' (PodName p) (Namespace d) checkIfSiteIsInstalled =
                  (so, '''', None)" by blast
        from u [OF this(1)] have "p = pod" by simp
        with ex x show "xerr = None \<and> serr = ''''" by simp
      qed
      finally show ?thesis using True by simp
    qed
  qed
  show "length (snd (isDrupalSiteInstalled cl d w)) =
           (if \<not> ready then n + 1 else if (\<exists>pod. running pod) then n + 3 else n + 2)"
  proof (cases ready)
    case False
    with rd assms(1) show ?thesis by (simp add: isDrupalSiteInstalled_def)
  next
    case True
    show ?thesis
    proof (cases err)
      case (Some a)
      with u have "\<not> running p" for p by blast
      with True Some g rd l show ?thesis
        by (simp add: isDrupalSiteInstalled_def execToServerPodErrOnStderr_def
            execToServerPod_def)
    next
      case None
      with r have rp: "running pod" by simp
      then have "\<exists>p. running p" by blast
      with True None g rd x l show ?thesis
        by (auto simp: isDrupalSiteInstalled_def execToServerPodErrOnStderr_def
            execToServerPod_def execToPodThroughAPI_def)
    qed
  qed
qed

text \<open>
  Claim C7, as amended. For a site whose \<open>Initialized\<close> condition is not true, the pass sets
  the condition to true exactly when the site is found installed or its clone job has
  succeeded, and to false otherwise. The site is found installed when the Deployment of the
  site is fetched with a ready replica, the pod of the current release is listed and Running,
  and the installed-check command, run in the \<open>php-fpm\<close> container of that pod, returns
  without error and without output on stderr. The clone job has succeeded when the job
  \<open>clone-<name>\<close> is fetched with a non-zero \<open>Succeeded\<close> count. (\<open>n\<close> is the number of calls made
  before; the clone job is fetched after the calls of the installed check, as call \<open>k\<close>.)
\<close>

theorem Reconcile_initialized_sets:
  assumes "\<not> ConditionTrue drupalSite ''Initialized''"
    and "n = length w"
    and "ready = (fault cl n = None
           \<and> (\<exists>dep. deploymentAt cl n (Namespace drupalSite) (Name drupalSite) = Some dep
                     \<and> ReadyReplicas dep \<noteq> 0))"
    and "running = (\<lambda>pod. fault cl (n + 1) = None
           \<and> find (\<lambda>v. index (PodAnnotations v) ''releaseID'' = releaseID drupalSite)
                 (podsAt cl (n + 1) (Namespace drupalSite) (podLabels drupalSite)) = Some pod
           \<and> Phase pod = PodRunning)"
    and "installed = (ready \<and> (\<exists>pod sout. running pod
           \<and> execAt cl (n + 2) ''php-fpm'' (PodName pod) (Namespace drupalSite)
                checkIfSiteIsInstalled = (sout, '''', None)))"
    and "k = (if \<not> ready then n + 1 else if (\<exists>pod. running pod) then n + 3 else n + 2)"
    and "cloned = (fault cl k = None
           \<and> (\<exists>job. jobAt cl k (Namespace drupalSite) (''clone-'' @ Name drupalSite) = Some job
                     \<and> Succeeded job \<noteq> 0))"
  shows "GetCondition (Conditions (Status (snd (fst (Reconcile_initialized cl drupalSite w)))))
           ''Initialized'' =
         Some \<lparr>condType = ''Initialized'',
               condStatus = (if installed \<or> cloned then CondTrue else CondFalse),
               condReason = '''', condMessage = ''''\<rparr>"
proof -
  obtain i w1 where i: "isDrupalSiteInstalled cl drupalSite w = (i, w1)"
    by (cases "isDrupalSiteInstalled cl drupalSite w")
  from isDrupalSiteInstalled_eq [OF assms(2,3,4)] i assms(5,6)
  have a: "i = installed" and b: "length w1 = k" by simp_all
  from b assms(7) have c: "fst (isCloneJobCompleted cl drupalSite w1) = cloned"
    by (simp add: isCloneJobCompleted_eq)
  from assms(1) i a c show ?thesis
    by (auto simp: Reconcile_initialized_def setInitialized_def setNotInitialized_def
        GetCondition_siteSetCondition split: prod.splits bool.splits)
qed

theorem Reconcile_initialized_sets_witness:
  "GetCondition (Conditions (Status (snd (fst (Reconcile_initialized sampleCluster freshSite [])))))
     ''Initialized'' =
   Some \<lparr>condType = ''Initialized'', condStatus = CondTrue, condReason = '''', condMessage = ''''\<rparr>
   \<and> GetCondition (Conditions (Status (snd (fst
        (Reconcile_initialized installJobDoneCluster freshSite [])))))
     ''Initialized'' =
   Some \<lparr>condType = ''Initialized'', condStatus = CondFalse, condReason = '''', condMessage = ''''\<rparr>
   \<and> execAt sampleCluster 2 ''php-fpm'' ''site-1'' ''ns'' checkIfSiteIsInstalled = ('''', '''', None)
   \<and> deploymentAt installJobDoneCluster 0 ''ns'' ''site'' =
       Some \<lparr>TemplateAnnotations = [(''releaseID'', ''v1-r1'')], ReadyReplicas = 0\<rparr>
   \<and> jobAt installJobDoneCluster 1 ''ns'' ''clone-site'' = None"
proof -
  have f: "\<not> ConditionTrue freshSite ''Initialized''"
    by (simp add: model_defs sample_defs)
  from Reconcile_initialized_sets [OF f refl refl refl refl refl refl, of sampleCluster "[]"]
    Reconcile_initialized_sets [OF f refl refl refl refl refl refl, of installJobDoneCluster "[]"]
  show ?thesis
    by (simp add: model_defs sample_defs)
qed

text \<open>
  The install job itself is not consulted: with a succeeded install job, no ready replica and
  no clone job, \<open>Initialized\<close> is set to false.
\<close>

theorem install_job_done_not_initialized:
  "\<not> ConditionTrue freshSite ''Initialized''
   \<and> isInstallJobCompleted installJobDoneCluster freshSite [] =
       (True, [GetCall KJob ''ns'' ''site-install-site''])
   \<and> GetCondition (Conditions (Status (snd (fst (Reconcile_initialized installJobDoneCluster freshSite [])))))
       ''Initialized'' =
     Some \<lparr>condType = ''Initialized'', condStatus = CondFalse, condReason = '''', condMessage = ''''\<rparr>"
  by (simp add: model_defs sample_defs)

subsection \<open>The cache reload after a roll-out\<close>

lemma reloadCacheAfterRollOut_fails_twice:
  assumes "execToServerPodErrOnStderr cl d ''php-fpm'' cacheReload w = ((s1, Some e1), w1)"
    and "execToServerPodErrOnStderr cl d ''php-fpm'' cacheReload w1 = ((s2, Some e2), w2)"
  shows "reloadCacheAfterRollOut E cl d w = ((True, False, None, ''''), d, w2)"
  using assms by (simp add: reloadCacheAfterRollOut_def Let_def)

text \<open>
  Claim C8. The site \<open>updatingSite\<close> is being updated to release \<open>v1-r1\<close>, whose pod runs, in a
  cluster where the cache reload prints to stderr each time. The code update runs the cache
  reload twice, sets no condition and makes no roll-back call, and returns \<open>update = true\<close>,
  \<open>requeue = false\<close>; the pass persists the unchanged status and returns without requeue and
  without error.
\<close>

theorem cache_reload_fails_twice_no_requeue:
  "updateDrupalVersion sampleErrors reloadFailsCluster updatingSite [] =
     ((True, False, None, ''''), updatingSite,
      [CreateOrUpdateCall KDeployment ''ns'' ''site''
         (deploymentForDrupalSite ''dbcredentials-site'' ''v1-r1''),
       ListCall KPod ''ns'' [(''drupalSite'', ''site''), (''app'', ''drupal'')],
       ListCall KPod ''ns'' [(''drupalSite'', ''site''), (''app'', ''drupal'')],
       ExecCall ''php-fpm'' ''site-1'' ''ns'' cacheReload,
       ListCall KPod ''ns'' [(''drupalSite'', ''site''), (''app'', ''drupal'')],
       ExecCall ''php-fpm'' ''site-1'' ''ns'' cacheReload])
   \<and> execAt reloadFailsCluster 3 ''php-fpm'' ''site-1'' ''ns'' cacheReload =
       ('''', ''cache rebuild failed'', None)
   \<and> execAt reloadFailsCluster 5 ''php-fpm'' ''site-1'' ''ns'' cacheReload =
       ('''', ''cache rebuild failed'', None)
   \<and> fst (Reconcile sampleErrors sampleGlobals reloadFailsCluster ''ns'' ''site'') =
       (\<lparr>Requeue = False\<rparr>, None)
   \<and> fst (snd (Reconcile sampleErrors sampleGlobals reloadFailsCluster ''ns'' ''site'')) =
       Some updatingSite
   \<and> drop 19 (snd (snd (Reconcile sampleErrors sampleGlobals reloadFailsCluster ''ns'' ''site''))) =
       [ListCall KPod ''ns'' [(''drupalSite'', ''site''), (''app'', ''drupal'')],
        ListCall KPod ''ns'' [(''drupalSite'', ''site''), (''app'', ''drupal'')],
        ExecCall ''php-fpm'' ''site-1'' ''ns'' cacheReload,
        ListCall KPod ''ns'' [(''drupalSite'', ''site''), (''app'', ''drupal'')],
        ExecCall ''php-fpm'' ''site-1'' ''ns'' cacheReload,
        StatusUpdateCall updatingSite]"
  by (simp add: model_defs sample_defs)

subsection \<open>Ingress of a site that is not published\<close>

text \<open>
  Claim C4. \<^verbatim>\<open>ensureNoWebDAVRoute\<close> looks up and deletes the Route named after the site, as
  \<^verbatim>\<open>ensureNoRoute\<close> does, and not the Route \<open>webdav-<name>\<close> that \<^verbatim>\<open>ensureResourceX\<close> creates;
  \<^verbatim>\<open>ensureNoReturnURI\<close> looks up the OidcReturnURI with empty name and namespace. On the
  installed, unpublished site \<open>unpublishedSite\<close>, whose Route, WebDAV Route and OidcReturnURI
  exist, the pass creates no ingress object and deletes the Route \<open>site\<close>; it never asks for
  the Route \<open>webdav-site\<close> or the OidcReturnURI \<open>site\<close> and deletes neither.
\<close>

theorem unpublished_site_keeps_webdav_route:
  "ensureNoWebDAVRoute cl d w = ensureNoRoute cl d w
   \<and> ensureNoReturnURI cl d w = ensureNoObject cl KOidcReturnURI '''' '''' w
   \<and> ConditionTrue unpublishedSite ''Initialized'' \<and> Publish (Spec unpublishedSite) = False
   \<and> presentAt unpublishedCluster KRoute 15 ''ns'' ''webdav-site'' = Some ()
   \<and> presentAt unpublishedCluster KOidcReturnURI 18 ''ns'' ''site'' = Some ()
   \<and> Reconcile sampleErrors sampleGlobals unpublishedCluster ''ns'' ''site'' =
     ((\<lparr>Requeue = False\<rparr>, None), Some unpublishedSite,
      [GetCall KDrupalSite ''ns'' ''site'', GetCall KDeployment ''ns'' ''site'',
       GetCall KDeployment ''ns'' ''site'',
       CreateOrUpdateCall KPersistentVolumeClaim ''ns'' ''pv-claim-site''
         persistentVolumeClaimForDrupalSite,
       CreateOrUpdateCall KDatabase ''ns'' ''site'' dbodForDrupalSite,
       CreateOrUpdateCall KSecret ''ns'' ''webdav-secret-site'' secretForWebDAV,
       CreateOrUpdateCall KConfigMap ''ns'' ''php-fpm-site'' updateConfigMapForPHPFPM,
       CreateOrUpdateCall KConfigMap ''ns'' ''nginx-site'' updateConfigMapForNginx,
       CreateOrUpdateCall KConfigMap ''ns'' ''site-settings-site'' updateConfigMapForSiteSettings,
       GetCall KDatabase ''ns'' ''site'', GetCall KDeployment ''ns'' ''site'',
       CreateOrUpdateCall KDeployment ''ns'' ''site''
         (deploymentForDrupalSite ''dbcredentials-site'' ''v1-r1''),
       CreateOrUpdateCall KService ''ns'' ''site'' serviceForDrupalSite,
       GetCall KDatabase ''ns'' ''site'',
       CreateOrUpdateCall KJob ''ns'' ''site-install-site''
         (jobForDrupalSiteInstallation ''dbcredentials-site''),
       GetCall KRoute ''ns'' ''site'', DeleteCall KRoute ''ns'' ''site'',
       GetCall KRoute ''ns'' ''site'', GetCall KOidcReturnURI '''' '''',
       CreateOrUpdateCall KSchedule ''openshift-cern-clusterstatebackup'' ''site''
         scheduledBackupsForDrupalSite,
       GetCall KDatabase ''ns'' ''site'',
       ListCall KBackup ''openshift-cern-clusterstatebackup''
         [(''drupal.webservices.cern.ch/drupalSite'', ''0123456789abcdef0123456789abcdef'')]])"
proof -
  have "ensureNoWebDAVRoute cl d w = ensureNoRoute cl d w"
    by (simp add: ensureNoWebDAVRoute_def ensureNoRoute_def)
  moreover have "ensureNoReturnURI cl d w = ensureNoObject cl KOidcReturnURI '''' '''' w"
    by (simp add: ensureNoReturnURI_def)
  moreover have "ConditionTrue unpublishedSite ''Initialized''"
    "Publish (Spec unpublishedSite) = False"
    "presentAt unpublishedCluster KRoute 15 ''ns'' ''webdav-site'' = Some ()"
    "presentAt unpublishedCluster KOidcReturnURI 18 ''ns'' ''site'' = Some ()"
    by (simp_all add: model_defs sample_defs)
  moreover have "Reconcile sampleErrors sampleGlobals unpublishedCluster ''ns'' ''site'' =
     ((\<lparr>Requeue = False\<rparr>, None), Some unpublishedSite,
      [GetCall KDrupalSite ''ns'' ''site'', GetCall KDeployment ''ns'' ''site'',
       GetCall KDeployment ''ns'' ''site'',
       CreateOrUpdateCall KPersistentVolumeClaim ''ns'' ''pv-claim-site''
         persistentVolumeClaimForDrupalSite,
       CreateOrUpdateCall KDatabase ''ns'' ''site'' dbodForDrupalSite,
       CreateOrUpdateCall KSecret ''ns'' ''webdav-secret-site'' secretForWebDAV,
       CreateOrUpdateCall KConfigMap ''ns'' ''php-fpm-site'' updateConfigMapForPHPFPM,
       CreateOrUpdateCall KConfigMap ''ns'' ''nginx-site'' updateConfigMapForNginx,
       CreateOrUpdateCall KConfigMap ''ns'' ''site-settings-site'' updateConfigMapForSiteSettings,
       GetCall KDatabase ''ns'' ''site'', GetCall KDeployment ''ns'' ''site'',
       CreateOrUpdateCall KDeployment ''ns'' ''site''
         (deploymentForDrupalSite ''dbcredentials-site'' ''v1-r1''),
       CreateOrUpdateCall KService ''ns'' ''site'' serviceForDrupalSite,
       GetCall KDatabase ''ns'' ''site'',
       CreateOrUpdateCall KJob ''ns'' ''site-install-site''
         (jobForDrupalSiteInstallation ''dbcredentials-site''),
       GetCall KRoute ''ns'' ''site'', DeleteCall KRoute ''ns'' ''site'',
       GetCall KRoute ''ns'' ''site'', GetCall KOidcReturnURI '''' '''',
       CreateOrUpdateCall KSchedule ''openshift-cern-clusterstatebackup'' ''site''
         scheduledBackupsForDrupalSite,
       GetCall KDatabase ''ns'' ''site'',
       ListCall KBackup ''openshift-cern-clusterstatebackup''
         [(''drupal.webservices.cern.ch/drupalSite'', ''0123456789abcdef0123456789abcdef'')]])"
    by (simp add: model_defs sample_defs)
  ultimately show ?thesis by simp
qed

end
